theory Spec2Isabelle
  imports Complex_Main "HOL-Library.Word" "HOL-Library.Multiset"
begin

unbundle bit_operations_syntax

section \<open>Python exceptions as values\<close>

text \<open>
  Every function of the source that can raise returns \<open>exn + 'a\<close>: \<open>Inl e\<close> is the
  exception \<open>e\<close> leaving the function, \<open>Inr v\<close> is the value returned.  A
  \<^verbatim>\<open>try: ... except Exception: ...\<close> block is \<open>try_except body handler\<close>.
\<close>

datatype exn = AttributeError | IndexError | ValueError | TypeError | RuntimeError | OSError

definition try_except :: "exn + 'a \<Rightarrow> (exn \<Rightarrow> exn + 'a) \<Rightarrow> exn + 'a" where
  "try_except body handler = (case body of Inl e \<Rightarrow> handler e | Inr v \<Rightarrow> Inr v)"

definition bind_r :: "exn + 'a \<Rightarrow> ('a \<Rightarrow> exn + 'b) \<Rightarrow> exn + 'b" where
  "bind_r m f = (case m of Inl e \<Rightarrow> Inl e | Inr v \<Rightarrow> f v)"

definition raises :: "exn + 'a \<Rightarrow> bool" where
  "raises r = (case r of Inl e \<Rightarrow> True | Inr v \<Rightarrow> False)"


section \<open>utils/dicom_utils.py: DicomProcessor\<close>

subsection \<open>is_dicom_file\<close>

text \<open>
  The argument \<^verbatim>\<open>fp: str | bytes\<close> is a byte buffer or a path.  The file system is the
  function \<open>open_rb\<close>: the bytes of the file at a path, or the exception that
  \<^verbatim>\<open>open(fp, "rb")\<close> (or the read) raises.  \<open>dcmread\<close> is the outcome of
  \<^verbatim>\<open>pydicom.dcmread(fp, stop_before_pixels=True)\<close>, a library call.
\<close>

type_synonym byte = "8 word"

datatype fp = Bytes "byte list" | Path string

definition DICM :: "byte list" where
  "DICM = [0x44, 0x49, 0x43, 0x4D]"

definition seek_read :: "nat \<Rightarrow> nat \<Rightarrow> byte list \<Rightarrow> byte list" where
  "seek_read off n content = take n (drop off content)"

definition is_dicom_file ::
  "(string \<Rightarrow> exn + byte list) \<Rightarrow> (fp \<Rightarrow> exn + unit) \<Rightarrow> fp \<Rightarrow> exn + bool" where
  "is_dicom_file open_rb dcmread f =
     try_except
       (case f of
          Bytes b \<Rightarrow> Inr (seek_read 128 4 b = DICM)
        | Path p \<Rightarrow> bind_r (open_rb p) (\<lambda>content. Inr (seek_read 128 4 content = DICM)))
       (\<lambda>e. try_except (bind_r (dcmread f) (\<lambda>u. Inr True)) (\<lambda>e'. Inr False))"

text \<open>
  What the docstring calls \<^verbatim>\<open>has 'DICM' at byte offset 128\<close>: the four bytes at offset
  128 of the buffer, or of the file at the path when it can be read, are the marker.
\<close>

definition has_marker :: "(string \<Rightarrow> exn + byte list) \<Rightarrow> fp \<Rightarrow> bool" where
  "has_marker open_rb f =
     (case f of
        Bytes b \<Rightarrow> seek_read 128 4 b = DICM
      | Path p \<Rightarrow>
          (case open_rb p of Inl e \<Rightarrow> False | Inr content \<Rightarrow> seek_read 128 4 content = DICM))"


subsection \<open>hashlib.md5\<close>

text \<open>
  \<^verbatim>\<open>hashlib.md5(b).hexdigest()\<close> is a library call; it is written out here after
  RFC 1321, on 32-bit values as natural numbers with the wrap-around explicit.  A row
  \<open>(r, k, s, g)\<close> of \<open>md5_table\<close> is one of the 64 steps: the round, the additive
  constant, the rotation and the index of the message word.
\<close>

definition md5_table :: "(nat \<times> nat \<times> nat \<times> nat) list" where
  "md5_table =
     [(0, 0xd76aa478, 7, 0), (0, 0xe8c7b756, 12, 1),
      (0, 0x242070db, 17, 2), (0, 0xc1bdceee, 22, 3),
      (0, 0xf57c0faf, 7, 4), (0, 0x4787c62a, 12, 5),
      (0, 0xa8304613, 17, 6), (0, 0xfd469501, 22, 7),
      (0, 0x698098d8, 7, 8), (0, 0x8b44f7af, 12, 9),
      (0, 0xffff5bb1, 17, 10), (0, 0x895cd7be, 22, 11),
      (0, 0x6b901122, 7, 12), (0, 0xfd987193, 12, 13),
      (0, 0xa679438e, 17, 14), (0, 0x49b40821, 22, 15),
      (1, 0xf61e2562, 5, 1), (1, 0xc040b340, 9, 6),
      (1, 0x265e5a51, 14, 11), (1, 0xe9b6c7aa, 20, 0),
      (1, 0xd62f105d, 5, 5), (1, 0x02441453, 9, 10),
      (1, 0xd8a1e681, 14, 15), (1, 0xe7d3fbc8, 20, 4),
      (1, 0x21e1cde6, 5, 9), (1, 0xc33707d6, 9, 14),
      (1, 0xf4d50d87, 14, 3), (1, 0x455a14ed, 20, 8),
      (1, 0xa9e3e905, 5, 13), (1, 0xfcefa3f8, 9, 2),
      (1, 0x676f02d9, 14, 7), (1, 0x8d2a4c8a, 20, 12),
      (2, 0xfffa3942, 4, 5), (2, 0x8771f681, 11, 8),
      (2, 0x6d9d6122, 16, 11), (2, 0xfde5380c, 23, 14),
      (2, 0xa4beea44, 4, 1), (2, 0x4bdecfa9, 11, 4),
      (2, 0xf6bb4b60, 16, 7), (2, 0xbebfbc70, 23, 10),
      (2, 0x289b7ec6, 4, 13), (2, 0xeaa127fa, 11, 0),
      (2, 0xd4ef3085, 16, 3), (2, 0x04881d05, 23, 6),
      (2, 0xd9d4d039, 4, 9), (2, 0xe6db99e5, 11, 12),
      (2, 0x1fa27cf8, 16, 15), (2, 0xc4ac5665, 23, 2),
      (3, 0xf4292244, 6, 0), (3, 0x432aff97, 10, 7),
      (3, 0xab9423a7, 15, 14), (3, 0xfc93a039, 21, 5),
      (3, 0x655b59c3, 6, 12), (3, 0x8f0ccc92, 10, 3),
      (3, 0xffeff47d, 15, 10), (3, 0x85845dd1, 21, 1),
      (3, 0x6fa87e4f, 6, 8), (3, 0xfe2ce6e0, 10, 15),
      (3, 0xa3014314, 15, 6), (3, 0x4e0811a1, 21, 13),
      (3, 0xf7537e82, 6, 4), (3, 0xbd3af235, 10, 11),
      (3, 0x2ad7d2bb, 15, 2), (3, 0xeb86d391, 21, 9)]"

definition add32 :: "nat \<Rightarrow> nat \<Rightarrow> nat" where
  "add32 x y = (x + y) mod 4294967296"

definition not32 :: "nat \<Rightarrow> nat" where
  "not32 x = 4294967295 - x"

definition rotl32 :: "nat \<Rightarrow> nat \<Rightarrow> nat" where
  "rotl32 n x = (x * 2 ^ n) mod 4294967296 + x div 2 ^ (32 - n)"

fun le_bytes :: "nat \<Rightarrow> nat \<Rightarrow> nat list" where
  "le_bytes 0 v = []"
| "le_bytes (Suc k) v = v mod 256 # le_bytes k (v div 256)"

definition md5_pad :: "nat list \<Rightarrow> nat list" where
  "md5_pad bs =
     bs @ [128] @ replicate ((119 - length bs mod 64) mod 64) 0 @ le_bytes 8 (8 * length bs)"

fun md5_words :: "nat list \<Rightarrow> nat list" where
  "md5_words (b0 # b1 # b2 # b3 # bs) =
     (b0 + 256 * (b1 + 256 * (b2 + 256 * b3))) # md5_words bs"
| "md5_words bs = []"

definition md5_mix :: "nat \<Rightarrow> nat \<Rightarrow> nat \<Rightarrow> nat \<Rightarrow> nat" where
  "md5_mix r b c d =
     (if r = 0 then (b AND c) OR (not32 b AND d)
      else if r = 1 then (d AND b) OR (not32 d AND c)
      else if r = 2 then b XOR c XOR d
      else c XOR (b OR not32 d))"

type_synonym md5_state = "nat \<times> nat \<times> nat \<times> nat"

fun md5_step :: "nat list \<Rightarrow> nat \<times> nat \<times> nat \<times> nat \<Rightarrow> md5_state \<Rightarrow> md5_state" where
  "md5_step m (r, k, s, g) (a, b, c, d) =
     (d, add32 b (rotl32 s (add32 (add32 (add32 (md5_mix r b c d) a) k) (m ! g))), b, c)"

fun md5_add :: "md5_state \<Rightarrow> md5_state \<Rightarrow> md5_state" where
  "md5_add (a0, b0, c0, d0) (a, b, c, d) = (add32 a0 a, add32 b0 b, add32 c0 c, add32 d0 d)"

definition md5_block :: "md5_state \<Rightarrow> nat list \<Rightarrow> md5_state" where
  "md5_block st block = md5_add st (fold (md5_step (md5_words block)) md5_table st)"

definition md5_init :: md5_state where
  "md5_init = (0x67452301, 0xefcdab89, 0x98badcfe, 0x10325476)"

fun md5_blocks :: "nat \<Rightarrow> nat list \<Rightarrow> nat list list" where
  "md5_blocks 0 p = []"
| "md5_blocks (Suc n) p = take 64 p # md5_blocks n (drop 64 p)"

fun md5_output :: "md5_state \<Rightarrow> nat list" where
  "md5_output (a, b, c, d) = le_bytes 4 a @ le_bytes 4 b @ le_bytes 4 c @ le_bytes 4 d"

definition md5_digest :: "nat list \<Rightarrow> nat list" where
  "md5_digest bs =
     md5_output (foldl md5_block md5_init (md5_blocks (length (md5_pad bs) div 64) (md5_pad bs)))"

definition hex_byte :: "nat \<Rightarrow> string" where
  "hex_byte n = [''0123456789abcdef'' ! (n div 16), ''0123456789abcdef'' ! (n mod 16)]"

definition md5_hexdigest :: "string \<Rightarrow> string" where
  "md5_hexdigest s = concat (map hex_byte (md5_digest (map of_char s)))"


subsection \<open>anonymize_metadata\<close>

text \<open>
  A metadata record is a Python dict from field names to values.  Only strings are
  looked into; every other value (numbers, lists, \<^verbatim>\<open>None\<close>) is \<open>PObj\<close>, and
  \<open>repr\<close> is Python's \<^verbatim>\<open>str()\<close> on those.  Strings are byte strings in UTF-8,
  so \<^verbatim>\<open>.encode()\<close> is the identity.

  Dicts live in a store, a list indexed by address, so that the copy made by
  \<^verbatim>\<open>metadata.copy()\<close> and the caller's dict are different objects.
\<close>

datatype 'a pyval = PStr string | PObj 'a

type_synonym 'a pydict = "string \<Rightarrow> 'a pyval option"

type_synonym 'a store = "'a pydict list"

definition py_str :: "('a \<Rightarrow> string) \<Rightarrow> 'a pyval \<Rightarrow> string" where
  "py_str repr v = (case v of PStr s \<Rightarrow> s | PObj x \<Rightarrow> repr x)"

definition dict_get :: "'a pydict \<Rightarrow> string \<Rightarrow> 'a pyval \<Rightarrow> 'a pyval" where
  "dict_get d k dflt = (case d k of None \<Rightarrow> dflt | Some v \<Rightarrow> v)"

definition sensitive_fields :: "string list" where
  "sensitive_fields = [''patient_name'', ''patient_id'']"

definition anonymize_field ::
  "('a \<Rightarrow> string) \<Rightarrow> 'a pydict \<Rightarrow> 'a pydict \<Rightarrow> string \<Rightarrow> 'a pydict" where
  "anonymize_field repr metadata anonymized field =
     (if anonymized field \<noteq> None then
        if field = ''patient_name'' then anonymized(field \<mapsto> PStr ''ANONYMOUS'')
        else if field = ''patient_id'' then
          anonymized(field \<mapsto>
            PStr (''ANON_'' @ take 8 (md5_hexdigest (py_str repr (dict_get metadata field (PStr ''''))))))
        else anonymized
      else anonymized)"

definition anonymize_metadata ::
  "('a \<Rightarrow> string) \<Rightarrow> 'a store \<Rightarrow> nat \<Rightarrow> 'a store \<times> nat" where
  "anonymize_metadata repr s metadata =
     (let anonymized = length s;
          s1 = s @ [s ! metadata];
          s2 = foldl (\<lambda>st field.
                  st[anonymized :=
                       anonymize_field repr (st ! metadata) (st ! anonymized) field])
                s1 sensitive_fields
      in (s2, anonymized))"


subsection \<open>_normalize_to_8bit\<close>

text \<open>
  A pixel array is a numpy array of a fixed-width integer dtype (pydicom gives
  \<^verbatim>\<open>uint16\<close> or \<^verbatim>\<open>int16\<close> for 16 allocated bits, by the pixel representation):
  its dtype, its shape and its elements in row-major order.  numpy's integer
  arithmetic keeps the dtype and wraps around; \<open>wrap\<close> writes that out.  True division
  gives \<^verbatim>\<open>float64\<close>, modelled by exact rationals.  \<^verbatim>\<open>astype(np.uint8)\<close> of a
  float truncates towards zero.  For a value outside 0..255 C leaves the conversion
  undefined; what numpy gives on x86-64 is modelled: the conversion goes through a
  32-bit integer, so a truncated value in the \<^verbatim>\<open>int32\<close> range is taken modulo 256 and
  any other value gives 0.
\<close>

datatype dtype = UInt nat | SInt nat

fun wrap :: "dtype \<Rightarrow> int \<Rightarrow> int" where
  "wrap (UInt b) v = v mod 2 ^ b"
| "wrap (SInt b) v = (v + 2 ^ (b - 1)) mod 2 ^ b - 2 ^ (b - 1)"

fun in_range :: "dtype \<Rightarrow> int \<Rightarrow> bool" where
  "in_range (UInt b) v = (0 \<le> v \<and> v < 2 ^ b)"
| "in_range (SInt b) v = (0 < b \<and> - (2 ^ (b - 1)) \<le> v \<and> v < 2 ^ (b - 1))"

record ndarray =
  dtype :: dtype
  shape :: "nat list"
  elems :: "int list"

definition well_formed :: "ndarray \<Rightarrow> bool" where
  "well_formed a =
     (length (elems a) = prod_list (shape a) \<and> list_all (in_range (dtype a)) (elems a))"

definition np_min :: "ndarray \<Rightarrow> exn + int" where
  "np_min a = (if elems a = [] then Inl ValueError else Inr (Min (set (elems a))))"

definition np_max :: "ndarray \<Rightarrow> exn + int" where
  "np_max a = (if elems a = [] then Inl ValueError else Inr (Max (set (elems a))))"

definition zeros_like_uint8 :: "ndarray \<Rightarrow> ndarray" where
  "zeros_like_uint8 a =
     \<lparr>dtype = UInt 8, shape = shape a, elems = replicate (prod_list (shape a)) 0\<rparr>"

definition trunc :: "rat \<Rightarrow> int" where
  "trunc q = (if 0 \<le> q then \<lfloor>q\<rfloor> else \<lceil>q\<rceil>)"

definition float_to_uint8 :: "rat \<Rightarrow> int" where
  "float_to_uint8 q =
     (if - 2147483648 \<le> trunc q \<and> trunc q < 2147483648 then trunc q mod 256 else 0)"

definition float_astype_uint8 :: "nat list \<Rightarrow> rat list \<Rightarrow> ndarray" where
  "float_astype_uint8 shp qs = \<lparr>dtype = UInt 8, shape = shp, elems = map float_to_uint8 qs\<rparr>"

definition int_astype_uint8 :: "ndarray \<Rightarrow> ndarray" where
  "int_astype_uint8 a =
     \<lparr>dtype = UInt 8, shape = shape a, elems = map (\<lambda>v. v mod 256) (elems a)\<rparr>"

text \<open>\<^verbatim>\<open>(pixel_array - min_val) / (max_val - min_val) * 255\<close>, before the cast.\<close>

definition scale_to_255 :: "dtype \<Rightarrow> int \<Rightarrow> int \<Rightarrow> int list \<Rightarrow> rat list" where
  "scale_to_255 dt min_val max_val xs =
     map (\<lambda>x. of_int (wrap dt (x - min_val)) / of_int (wrap dt (max_val - min_val)) * 255) xs"

definition normalize_to_8bit :: "ndarray \<Rightarrow> exn + ndarray" where
  "normalize_to_8bit pixel_array =
     try_except
       (bind_r (np_min pixel_array) (\<lambda>min_val.
        bind_r (np_max pixel_array) (\<lambda>max_val.
          if max_val = min_val then Inr (zeros_like_uint8 pixel_array)
          else Inr (float_astype_uint8 (shape pixel_array)
                 (scale_to_255 (dtype pixel_array) min_val max_val (elems pixel_array))))))
       (\<lambda>e. Inr (int_astype_uint8 pixel_array))"

text \<open>The linear rescaling of a value to 0..255 that the docstring promises.\<close>

definition linear_rescale :: "int \<Rightarrow> int \<Rightarrow> int \<Rightarrow> int" where
  "linear_rescale lo hi x = ((x - lo) * 255) div (hi - lo)"


section \<open>services/model_service.py: the model adapters\<close>

subsection \<open>Tensors, networks and results\<close>

text \<open>
  An input batch (a numpy array or a torch tensor of \<^verbatim>\<open>float32\<close>) is its shape and its
  elements in row-major order.  Floating-point numbers are modelled by real numbers:
  no rounding, no NaN.  What a network returns is a tensor of rank 0, 1 or 2 (a
  classifier or regressor head gives \<^verbatim>\<open>[N, C]\<close>); outputs of higher rank are outside
  the model.  A rank-2 output is the list of its rows.

  A network is a library object: the function from an input to the output or to the
  exception its forward pass raises.  A Keras model also declares the channel count of
  its input, \<^verbatim>\<open>self.model.inputs[0].shape[-1]\<close>, which may be \<^verbatim>\<open>None\<close>.

  A result is the Python dict that \<^verbatim>\<open>predict\<close> returns, as the list of its items.
  Moving a tensor to the device, logging and printing have no effect on a result and are
  left out.
\<close>

record tensor =
  tshape :: "nat list"
  tdata :: "real list"

datatype tout = T0 real | T1 "real list" | T2 "real list list"

type_synonym torch_module = "tensor \<Rightarrow> exn + tout"

record keras_model =
  input_channels :: "nat option"
  call :: "tensor \<Rightarrow> exn + tout"

datatype jval =
    Str string
  | Num real
  | NumList "real list"
  | StrList "string list"
  | NumDict "(string \<times> real) list"

type_synonym result = "(string \<times> jval) list"

text \<open>
  The adapter object: \<^verbatim>\<open>self.model\<close> (\<^verbatim>\<open>self.tf_model\<close> for the glaucoma adapter)
  and \<^verbatim>\<open>self.is_loaded\<close>.  A fresh adapter is \<open>unloaded\<close>.
\<close>

record 'm adapter =
  model :: "'m option"
  is_loaded :: bool

definition unloaded :: "'m adapter" where
  "unloaded = \<lparr>model = None, is_loaded = False\<rparr>"

text \<open>
  What loading depends on outside the program: whether the artifact file exists, what
  deserialising it gives (the network, evaluated and ready, or the exception raised on
  the way), the stand-in network that \<^verbatim>\<open>_create_dummy_model\<close> builds from library
  layers with randomly initialised parameters, given its number of outputs
  (\<open>stand_in\<close> is \<^verbatim>\<open>Sequential(AdaptiveAvgPool2d((1, 1)), Flatten(), Linear(3, k))\<close>
  for the PyTorch adapters, \<open>keras_stand_in\<close> is
  \<^verbatim>\<open>Sequential([GlobalAveragePooling2D(input_shape=(224, 224, 3)), Dense(k, 'softmax')])\<close>
  for the glaucoma adapter), the draws of \<^verbatim>\<open>torch.randn\<close>, and the clock.  Which
  batches a stand-in built from library layers answers, and with what, is the library's
  matter and is not fixed here.
\<close>

record environment =
  path_exists :: bool
  torch_load :: "exn + torch_module"
  keras_load :: "exn + keras_model"
  stand_in :: "nat \<Rightarrow> torch_module"
  keras_stand_in :: "nat \<Rightarrow> keras_model"
  randn :: "nat \<Rightarrow> nat \<Rightarrow> real list list"
  gmtime :: string

definition sigmoid :: "real \<Rightarrow> real" where
  "sigmoid x = 1 / (1 + exp (- x))"

definition softmax :: "real list \<Rightarrow> real list" where
  "softmax xs = map (\<lambda>x. exp x / sum_list (map exp xs)) xs"

text \<open>\<^verbatim>\<open>argmax\<close>: the index of the first maximal element.\<close>

definition argmax :: "real list \<Rightarrow> nat" where
  "argmax xs = length (takeWhile (\<lambda>x. x \<noteq> Max (set xs)) xs)"

definition sort_descending :: "real list \<Rightarrow> real list" where
  "sort_descending xs = rev (sort xs)"

text \<open>\<^verbatim>\<open>t.item()\<close> on a tensor given by its elements: exactly one element, or an error.\<close>

definition item :: "'a list \<Rightarrow> exn + 'a" where
  "item xs = (case xs of [x] \<Rightarrow> Inr x | _ \<Rightarrow> Inl RuntimeError)"

definition getitem :: "'a list \<Rightarrow> nat \<Rightarrow> exn + 'a" where
  "getitem xs i = (if i < length xs then Inr (xs ! i) else Inl IndexError)"

definition softmax_dim1 :: "tout \<Rightarrow> exn + real list list" where
  "softmax_dim1 t = (case t of T2 rows \<Rightarrow> Inr (map softmax rows) | _ \<Rightarrow> Inl IndexError)"

definition argmax_dim1 :: "real list list \<Rightarrow> exn + nat list" where
  "argmax_dim1 rows = (if [] \<in> set rows then Inl IndexError else Inr (map argmax rows))"

definition max_dim1 :: "real list list \<Rightarrow> exn + real list" where
  "max_dim1 rows = (if [] \<in> set rows then Inl IndexError else Inr (map (\<lambda>r. Max (set r)) rows))"

definition call_model :: "('x \<Rightarrow> exn + 'y) adapter \<Rightarrow> 'x \<Rightarrow> exn + 'y" where
  "call_model self x = (case model self of None \<Rightarrow> Inl TypeError | Some m \<Rightarrow> m x)"

text \<open>\<^verbatim>\<open>if not self.is_loaded: self.load_model()\<close>\<close>

definition ensure_loaded :: "('m adapter \<Rightarrow> exn + 'm adapter) \<Rightarrow> 'm adapter \<Rightarrow> exn + 'm adapter" where
  "ensure_loaded load_model self = (if \<not> is_loaded self then load_model self else Inr self)"

text \<open>
  A \<^verbatim>\<open>predict\<close> whose whole body is inside \<^verbatim>\<open>try: ... except Exception\<close>: the
  adapter after the call, and the result or the exception that leaves the method.
\<close>

definition guarded_predict ::
  "('m adapter \<Rightarrow> exn + 'm adapter) \<Rightarrow> ('m adapter \<Rightarrow> 'x \<Rightarrow> exn + result) \<Rightarrow> result
     \<Rightarrow> 'm adapter \<Rightarrow> 'x \<Rightarrow> 'm adapter \<times> (exn + result)" where
  "guarded_predict load_model body dflt self x =
     (case ensure_loaded load_model self of
        Inl e \<Rightarrow> (self, Inr dflt)
      | Inr self' \<Rightarrow> (self', try_except (body self' x) (\<lambda>e. Inr dflt)))"

definition mean :: "real list \<Rightarrow> real" where
  "mean xs = sum_list xs / real (length xs)"


subsection \<open>DRFundusModel\<close>

definition DRFundus_classes :: "string list" where
  "DRFundus_classes = [''No DR'', ''Early pathology'', ''Advanced pathology'']"

text \<open>The stand-in: \<^verbatim>\<open>torch.randn(x.size(0), 3)\<close>.\<close>

definition DRFundus_create_dummy_model :: "environment \<Rightarrow> torch_module" where
  "DRFundus_create_dummy_model env x =
     (case tshape x of [] \<Rightarrow> Inl IndexError | n # rest \<Rightarrow> Inr (T2 (randn env n 3)))"

definition DRFundus_load_model ::
  "environment \<Rightarrow> torch_module adapter \<Rightarrow> exn + torch_module adapter" where
  "DRFundus_load_model env self =
     try_except
       (bind_r (torch_load env) (\<lambda>m. Inr (self\<lparr>model := Some m, is_loaded := True\<rparr>)))
       (\<lambda>e. Inr (self\<lparr>model := Some (DRFundus_create_dummy_model env), is_loaded := True\<rparr>))"

definition DRFundus_default :: result where
  "DRFundus_default =
     [(''prediction'', Str ''No DR''),
      (''confidence'', Num 0.0),
      (''probabilities'', NumList [1.0, 0.0, 0.0]),
      (''classes'', StrList DRFundus_classes)]"

definition DRFundus_body :: "torch_module adapter \<Rightarrow> tensor \<Rightarrow> exn + result" where
  "DRFundus_body self input_data =
     bind_r (call_model self input_data) (\<lambda>outputs.
     bind_r (softmax_dim1 outputs) (\<lambda>probabilities.
     bind_r (argmax_dim1 probabilities) (\<lambda>predicted_class.
     bind_r (max_dim1 probabilities) (\<lambda>confidence.
     bind_r (item predicted_class) (\<lambda>idx.
     bind_r (getitem DRFundus_classes idx) (\<lambda>prediction.
     bind_r (item confidence) (\<lambda>confidence_score.
     let sorted_probs = map sort_descending probabilities in
     bind_r (getitem sorted_probs 0) (\<lambda>row0.
     bind_r (getitem row0 0) (\<lambda>top.
     bind_r (getitem row0 1) (\<lambda>second.
     let margin_confidence = top - second in
     bind_r (getitem probabilities 0) (\<lambda>p0.
     Inr [(''prediction'', Str prediction),
          (''confidence'', Num margin_confidence),
          (''probabilities'', NumList p0),
          (''classes'', StrList DRFundus_classes)])))))))))))"

definition DRFundus_predict ::
  "environment \<Rightarrow> torch_module adapter \<Rightarrow> tensor \<Rightarrow> torch_module adapter \<times> (exn + result)" where
  "DRFundus_predict env = guarded_predict (DRFundus_load_model env) DRFundus_body DRFundus_default"


subsection \<open>AMDOCTModel\<close>

definition AMDOCT_classes :: "string list" where
  "AMDOCT_classes = [''Control'', ''Early'', ''Intermediate'', ''Late'']"

definition AMDOCT_create_dummy_model :: "environment \<Rightarrow> torch_module" where
  "AMDOCT_create_dummy_model env = stand_in env (length AMDOCT_classes)"

definition AMDOCT_load_model ::
  "environment \<Rightarrow> torch_module adapter \<Rightarrow> exn + torch_module adapter" where
  "AMDOCT_load_model env self =
     try_except
       (bind_r (torch_load env) (\<lambda>m. Inr (self\<lparr>model := Some m, is_loaded := True\<rparr>)))
       (\<lambda>e. Inr (self\<lparr>model := Some (AMDOCT_create_dummy_model env), is_loaded := True\<rparr>))"

definition AMDOCT_default :: result where
  "AMDOCT_default =
     [(''prediction'', Str ''Normal''),
      (''confidence'', Num 0.85),
      (''class_probabilities'',
         NumDict [(''Normal'', 0.85), (''Early AMD'', 0.10),
                  (''Intermediate AMD'', 0.03), (''Advanced AMD'', 0.02)])]"

definition AMDOCT_body :: "torch_module adapter \<Rightarrow> tensor \<Rightarrow> exn + result" where
  "AMDOCT_body self input_data =
     bind_r (call_model self input_data) (\<lambda>outputs.
     bind_r (softmax_dim1 outputs) (\<lambda>probabilities.
     bind_r (argmax_dim1 probabilities) (\<lambda>predicted_class.
     bind_r (max_dim1 probabilities) (\<lambda>confidence.
     bind_r (item predicted_class) (\<lambda>idx.
     bind_r (getitem AMDOCT_classes idx) (\<lambda>prediction.
     bind_r (item confidence) (\<lambda>confidence_score.
     bind_r (getitem probabilities 0) (\<lambda>p0.
     Inr [(''prediction'', Str prediction),
          (''confidence'', Num confidence_score),
          (''class_probabilities'', NumDict (zip AMDOCT_classes p0))]))))))))"

definition AMDOCT_predict ::
  "environment \<Rightarrow> torch_module adapter \<Rightarrow> tensor \<Rightarrow> torch_module adapter \<times> (exn + result)" where
  "AMDOCT_predict env = guarded_predict (AMDOCT_load_model env) AMDOCT_body AMDOCT_default"


subsection \<open>AMDFundusModel\<close>

definition AMDFundus_classes :: "string list" where
  "AMDFundus_classes = [''No AMD'', ''AMD Present'']"

definition AMDFundus_create_dummy_model :: "environment \<Rightarrow> torch_module" where
  "AMDFundus_create_dummy_model env = stand_in env 1"

text \<open>
  \<open>torch_load env\<close> stands for the whole \<^verbatim>\<open>else\<close> branch: reading the checkpoint, building
  the backbone and its head, and loading the weights, strictly and then relaxed.
\<close>

definition AMDFundus_load_model ::
  "environment \<Rightarrow> torch_module adapter \<Rightarrow> exn + torch_module adapter" where
  "AMDFundus_load_model env self =
     try_except
       (bind_r (if \<not> path_exists env then Inr (AMDFundus_create_dummy_model env)
                else torch_load env)
          (\<lambda>m. Inr (self\<lparr>model := Some m, is_loaded := True\<rparr>)))
       (\<lambda>e. Inr (self\<lparr>model := Some (AMDFundus_create_dummy_model env), is_loaded := True\<rparr>))"

definition AMDFundus_default :: result where
  "AMDFundus_default =
     [(''prediction'', Str ''No AMD''),
      (''confidence'', Num 0.92),
      (''probability'', Num 0.08)]"

text \<open>Python's \<^verbatim>\<open>str\<close> of a non-negative integer.\<close>

fun str_nat :: "nat \<Rightarrow> string" where
  "str_nat n =
     (if n < 10 then [char_of (48 + n)] else str_nat (n div 10) @ [char_of (48 + n mod 10)])"

definition unsqueeze1 :: "tout \<Rightarrow> tout" where
  "unsqueeze1 t = (case t of T1 xs \<Rightarrow> T2 (map (\<lambda>v. [v]) xs) | _ \<Rightarrow> t)"

text \<open>
  \<^verbatim>\<open>logits.shape[1]\<close> together with the rows.  With no row (an empty batch) the list of
  rows does not keep the column count; the count is then taken to be 0, and every path of
  \<^verbatim>\<open>predict\<close> ends in the exception that \<^verbatim>\<open>item()\<close> raises on an empty tensor.
\<close>

definition shape1 :: "tout \<Rightarrow> exn + nat \<times> real list list" where
  "shape1 t =
     (case t of
        T2 rows \<Rightarrow> Inr (case rows of [] \<Rightarrow> 0 | r # rest \<Rightarrow> length r, rows)
      | _ \<Rightarrow> Inl IndexError)"

definition gather1 :: "real list list \<Rightarrow> nat list \<Rightarrow> real list" where
  "gather1 probs idxs = map (\<lambda>(r, i). r ! i) (zip probs idxs)"

definition AMDFundus_body :: "torch_module adapter \<Rightarrow> tensor \<Rightarrow> exn + result" where
  "AMDFundus_body self input_data =
     bind_r (call_model self input_data) (\<lambda>logits0.
     bind_r (shape1 (unsqueeze1 logits0)) (\<lambda>(ncols, logits).
     bind_r
       (if ncols = 1 then
          let prob_pos = map (\<lambda>r. sigmoid (hd r)) logits
          in Inr (map (\<lambda>p. if p > 0.5 then 1 else 0) prob_pos, prob_pos)
        else
          let probs = map softmax logits in
          bind_r (argmax_dim1 probs) (\<lambda>pred_idx.
            if ncols \<ge> 2 then Inr (pred_idx, map (\<lambda>r. r ! 1) probs)
            else Inr (pred_idx, gather1 probs pred_idx)))
       (\<lambda>(pred_idx, probability).
     bind_r (item pred_idx) (\<lambda>idx.
     bind_r (item probability) (\<lambda>prob.
     let prediction = (if length AMDFundus_classes > idx then AMDFundus_classes ! idx
                       else str_nat idx);
         confidence = (if ncols = 1 \<or> ncols = 2 then (if idx = 1 then prob else 1 - prob)
                       else prob)
     in Inr [(''prediction'', Str prediction),
             (''confidence'', Num confidence),
             (''probability'', Num prob)])))))"

definition AMDFundus_predict ::
  "environment \<Rightarrow> torch_module adapter \<Rightarrow> tensor \<Rightarrow> torch_module adapter \<times> (exn + result)" where
  "AMDFundus_predict env =
     guarded_predict (AMDFundus_load_model env) AMDFundus_body AMDFundus_default"


subsection \<open>Arrays given to the Keras adapters\<close>

definition ndim :: "tensor \<Rightarrow> nat" where
  "ndim x = length (tshape x)"

text \<open>\<^verbatim>\<open>x[None, ...]\<close> and \<^verbatim>\<open>np.expand_dims(x, 0)\<close>\<close>

definition expand_dims0 :: "tensor \<Rightarrow> tensor" where
  "expand_dims0 x = x\<lparr>tshape := 1 # tshape x\<rparr>"

text \<open>\<^verbatim>\<open>x.shape[-1]\<close>\<close>

definition shape_last :: "tensor \<Rightarrow> exn + nat" where
  "shape_last x = (if tshape x = [] then Inl IndexError else Inr (last (tshape x)))"

text \<open>\<^verbatim>\<open>np.repeat(x, k, axis=-1)\<close>: every element k times in a row.\<close>

definition np_repeat_last :: "nat \<Rightarrow> tensor \<Rightarrow> tensor" where
  "np_repeat_last k x =
     \<lparr>tshape = butlast (tshape x) @ [k * last (tshape x)],
      tdata = concat (map (replicate k) (tdata x))\<rparr>"

text \<open>\<^verbatim>\<open>x.mean(axis=-1, keepdims=True)\<close>\<close>

definition mean_last_keepdims :: "tensor \<Rightarrow> tensor" where
  "mean_last_keepdims x =
     (let c = last (tshape x)
      in \<lparr>tshape = butlast (tshape x) @ [1],
          tdata = map (\<lambda>i. mean (take c (drop (i * c) (tdata x))))
                    [0..<length (tdata x) div c]\<rparr>)"

text \<open>\<^verbatim>\<open>y.numpy().squeeze()\<close>: every axis of length 1 is dropped.\<close>

fun squeeze :: "tout \<Rightarrow> tout" where
  "squeeze (T0 v) = T0 v"
| "squeeze (T1 xs) = (case xs of [x] \<Rightarrow> T0 x | _ \<Rightarrow> T1 xs)"
| "squeeze (T2 rows) =
     (case rows of
        [r] \<Rightarrow> (case r of [x] \<Rightarrow> T0 x | _ \<Rightarrow> T1 r)
      | _ \<Rightarrow> if rows \<noteq> [] \<and> list_all (\<lambda>r. length r = 1) rows then T1 (map hd rows)
             else T2 rows)"


subsection \<open>DROCTModel\<close>

definition DROCT_classes :: "string list" where
  "DROCT_classes = [''DR'', ''Normal'']"

text \<open>
  \<^verbatim>\<open>self._create_dummy_model()\<close>: neither \<^verbatim>\<open>DROCTModel\<close> nor \<^verbatim>\<open>BaseModel\<close>
  defines the method, so the attribute lookup raises.
\<close>

definition DROCT_create_dummy_model :: "exn + keras_model" where
  "DROCT_create_dummy_model = Inl AttributeError"

definition DROCT_load_model ::
  "environment \<Rightarrow> keras_model adapter \<Rightarrow> exn + keras_model adapter" where
  "DROCT_load_model env self =
     try_except
       (bind_r (keras_load env) (\<lambda>m. Inr (self\<lparr>model := Some m, is_loaded := True\<rparr>)))
       (\<lambda>e. bind_r DROCT_create_dummy_model
               (\<lambda>m. Inr (self\<lparr>model := Some m, is_loaded := True\<rparr>)))"

text \<open>The channel alignment of \<^verbatim>\<open>predict\<close>: the array that is given to the network.\<close>

definition DROCT_align :: "keras_model \<Rightarrow> tensor \<Rightarrow> exn + tensor" where
  "DROCT_align m input_data =
     (let x = (if ndim input_data = 3 then expand_dims0 input_data else input_data)
      in bind_r (shape_last x) (\<lambda>c.
         let expected_c = (case input_channels m of Some k \<Rightarrow> k | None \<Rightarrow> c)
         in if c = 1 \<and> expected_c = 3 then Inr (np_repeat_last 3 x)
            else if c = 3 \<and> expected_c = 1 then Inr (mean_last_keepdims x)
            else Inr x))"

definition DROCT_probs :: "tout \<Rightarrow> exn + real list" where
  "DROCT_probs y =
     (case y of
        T0 p_normal \<Rightarrow> Inr [1.0 - p_normal, p_normal]
      | T1 ys \<Rightarrow>
          if length ys = 1 then Inr [1.0 - ys ! 0, ys ! 0]
          else if length ys = 2 then Inr (softmax ys)
          else Inl ValueError
      | T2 rows \<Rightarrow> Inl ValueError)"

definition DROCT_body :: "keras_model adapter \<Rightarrow> tensor \<Rightarrow> exn + result" where
  "DROCT_body self input_data =
     (case model self of
        None \<Rightarrow> Inl AttributeError
      | Some m \<Rightarrow>
          bind_r (DROCT_align m input_data) (\<lambda>x.
          bind_r (call m x) (\<lambda>y.
          bind_r (DROCT_probs (squeeze y)) (\<lambda>probs.
          let idx = argmax probs in
          bind_r (getitem DROCT_classes idx) (\<lambda>prediction.
          bind_r (getitem probs idx) (\<lambda>confidence.
          Inr [(''prediction'', Str prediction),
               (''confidence'', Num confidence),
               (''probabilities'', NumDict (zip DROCT_classes probs)),
               (''classes'', StrList DROCT_classes)]))))))"

text \<open>\<^verbatim>\<open>predict\<close> has no \<^verbatim>\<open>try\<close>: what the body raises leaves the method.\<close>

definition DROCT_predict ::
  "environment \<Rightarrow> keras_model adapter \<Rightarrow> tensor \<Rightarrow> keras_model adapter \<times> (exn + result)" where
  "DROCT_predict env self input_data =
     (case ensure_loaded (DROCT_load_model env) self of
        Inl e \<Rightarrow> (self, Inl e)
      | Inr self' \<Rightarrow> (self', DROCT_body self' input_data))"


subsection \<open>GlaucomaFundusModel\<close>

definition Glaucoma_classes :: "string list" where
  "Glaucoma_classes = [''Glaucoma Suspected'', ''No Glaucoma'']"

definition Glaucoma_create_dummy_tf_model :: "environment \<Rightarrow> keras_model" where
  "Glaucoma_create_dummy_tf_model env = keras_stand_in env (length Glaucoma_classes)"

definition Glaucoma_load_model ::
  "environment \<Rightarrow> keras_model adapter \<Rightarrow> exn + keras_model adapter" where
  "Glaucoma_load_model env self =
     try_except
       (bind_r (if \<not> path_exists env then Inr (Glaucoma_create_dummy_tf_model env)
                else keras_load env)
          (\<lambda>m. Inr (self\<lparr>model := Some m, is_loaded := True\<rparr>)))
       (\<lambda>e. Inr (self\<lparr>model := Some (Glaucoma_create_dummy_tf_model env), is_loaded := True\<rparr>))"

definition Glaucoma_default :: result where
  "Glaucoma_default =
     [(''prediction'', Str ''No Glaucoma''),
      (''confidence'', Num 0.88),
      (''class_probabilities'',
         NumDict [(''No Glaucoma'', 0.88), (''Glaucoma Suspected'', 0.08), (''Glaucoma'', 0.04)])]"

text \<open>
  \<^verbatim>\<open>y.numpy()[0]\<close>, kept only when it is a vector: on a scalar, the softmax or the
  indexing that follows raises.
\<close>

definition first_row :: "tout \<Rightarrow> exn + real list" where
  "first_row y = (case y of T2 rows \<Rightarrow> getitem rows 0 | _ \<Rightarrow> Inl IndexError)"

text \<open>\<^verbatim>\<open>np.isclose(a, b, atol=1e-3)\<close>, with the default \<^verbatim>\<open>rtol=1e-5\<close>\<close>

definition isclose :: "real \<Rightarrow> real \<Rightarrow> bool" where
  "isclose a b = (\<bar>a - b\<bar> \<le> 1 / 1000 + 1 / 100000 * \<bar>b\<bar>)"

definition call_keras :: "keras_model adapter \<Rightarrow> tensor \<Rightarrow> exn + tout" where
  "call_keras self x = (case model self of None \<Rightarrow> Inl TypeError | Some m \<Rightarrow> call m x)"

definition Glaucoma_body :: "keras_model adapter \<Rightarrow> tensor \<Rightarrow> exn + result" where
  "Glaucoma_body self input_data =
     (let x = (if ndim input_data = 3 then expand_dims0 input_data else input_data)
      in if ndim x \<noteq> 4 \<or> last (tshape x) \<noteq> 3 then Inl ValueError
         else
           bind_r (call_keras self x) (\<lambda>y.
           bind_r (first_row y) (\<lambda>probs0.
           if probs0 = [] then Inl ValueError
           else
             let probs = (if Min (set probs0) < 0 \<or> Max (set probs0) > 1.0
                             \<or> \<not> isclose (sum_list probs0) 1.0
                          then softmax probs0 else probs0);
                 idx = argmax probs
             in bind_r (getitem Glaucoma_classes idx) (\<lambda>prediction.
                bind_r (getitem probs idx) (\<lambda>confidence.
                Inr [(''prediction'', Str prediction),
                     (''confidence'', Num confidence),
                     (''class_probabilities'', NumDict (zip Glaucoma_classes probs))])))))"

definition Glaucoma_predict ::
  "environment \<Rightarrow> keras_model adapter \<Rightarrow> tensor \<Rightarrow> keras_model adapter \<times> (exn + result)" where
  "Glaucoma_predict env =
     guarded_predict (Glaucoma_load_model env) Glaucoma_body Glaucoma_default"


subsection \<open>BiomarkerModel\<close>

text \<open>
  \<^verbatim>\<open>BIOMARKER_CONFIG\<close>, in the order of the source.  The micro sign of two units is
  its two bytes in UTF-8.  A name that is not in the table has the empty configuration,
  \<open>None\<close>, and every lookup then gives its default.
\<close>

record biomarker_config =
  unit :: string
  normal_range :: string
  scale_factor :: real

definition BIOMARKER_CONFIG :: "(string \<times> biomarker_config) list" where
  "BIOMARKER_CONFIG =
     [(''Age'',
        \<lparr>unit = ''years'',
          normal_range = ''18-80'',
          scale_factor = 1.0\<rparr>),
      (''BMI'',
        \<lparr>unit = ''kg/m^2'',
          normal_range = ''18.5-24.9'',
          scale_factor = 1.0\<rparr>),
      (''BP_OUT_CALC_AVG_DIASTOLIC_BP'',
        \<lparr>unit = ''mmHg'',
          normal_range = ''60-80'',
          scale_factor = 1.0\<rparr>),
      (''BP_OUT_CALC_AVG_SYSTOLIC_BP'',
        \<lparr>unit = ''mmHg'',
          normal_range = ''90-120'',
          scale_factor = 1.0\<rparr>),
      (''Cholesterol Total'',
        \<lparr>unit = ''mmol/L'',
          normal_range = ''<5.2'',
          scale_factor = 1.0\<rparr>),
      (''HDL-Cholesterol'',
        \<lparr>unit = ''mmol/L'',
          normal_range = ''>1.0 (M), >1.3 (F)'',
          scale_factor = 1.0\<rparr>),
      (''LDL-Cholesterol Calc'',
        \<lparr>unit = ''mmol/L'',
          normal_range = ''<2.6'',
          scale_factor = 1.0\<rparr>),
      (''Triglyceride'',
        \<lparr>unit = ''mmol/L'',
          normal_range = ''<1.7'',
          scale_factor = 1.0\<rparr>),
      (''Glucose'',
        \<lparr>unit = ''mmol/L'',
          normal_range = ''3.9-5.6'',
          scale_factor = 1.0\<rparr>),
      (''HbA1C %'',
        \<lparr>unit = ''%'',
          normal_range = ''<5.7'',
          scale_factor = 1.0\<rparr>),
      (''Insulin'',
        \<lparr>unit = ''mcunit/mL'',
          normal_range = ''2.6-24.9'',
          scale_factor = 1.0\<rparr>),
      (''Hematocrit'',
        \<lparr>unit = ''%'',
          normal_range = ''36-46 (F), 41-50 (M)'',
          scale_factor = 1.0\<rparr>),
      (''Hemoglobin'',
        \<lparr>unit = ''g/dL'',
          normal_range = ''12-15.5 (F), 13.5-17.5 (M)'',
          scale_factor = 1.0\<rparr>),
      (''Red Blood Cell'',
        \<lparr>unit = ''x10^6/'' @ [CHR 0xC2, CHR 0xB5] @ ''L'',
          normal_range = ''4.0-5.2 (F), 4.7-6.1 (M)'',
          scale_factor = 1.0\<rparr>),
      (''Creatinine'',
        \<lparr>unit = [CHR 0xC2, CHR 0xB5] @ ''mol/L'',
          normal_range = ''53-115'',
          scale_factor = 1.0\<rparr>),
      (''Sex Hormone Binding Globulin'',
        \<lparr>unit = ''nmol/L'',
          normal_range = ''18-144'',
          scale_factor = 1.0\<rparr>),
      (''Estradiol'',
        \<lparr>unit = ''pmol/L'',
          normal_range = ''55-1285'',
          scale_factor = 1.0\<rparr>),
      (''Testosterone Total'',
        \<lparr>unit = ''nmol/L'',
          normal_range = ''10-35 (M), 0.5-2.4 (F)'',
          scale_factor = 1.0\<rparr>)]"

definition config_of :: "string \<Rightarrow> biomarker_config option" where
  "config_of biomarker_name = map_of BIOMARKER_CONFIG biomarker_name"

definition config_get :: "biomarker_config option \<Rightarrow> (biomarker_config \<Rightarrow> 'a) \<Rightarrow> 'a \<Rightarrow> 'a" where
  "config_get config field dflt = (case config of None \<Rightarrow> dflt | Some c \<Rightarrow> field c)"

definition dummy_values :: "(string \<times> real) list" where
  "dummy_values =
     [(''Age'', 45.2),
      (''BMI'', 23.5),
      (''BP_OUT_CALC_AVG_DIASTOLIC_BP'', 72.0),
      (''BP_OUT_CALC_AVG_SYSTOLIC_BP'', 118.0),
      (''Cholesterol Total'', 185.0),
      (''Creatinine'', 0.9),
      (''Estradiol'', 150.0),
      (''Glucose'', 95.0),
      (''HbA1C %'', 5.2),
      (''HDL-Cholesterol'', 55.0),
      (''Hematocrit'', 42.0),
      (''Hemoglobin'', 14.2),
      (''Insulin'', 12.5),
      (''LDL-Cholesterol Calc'', 95.0),
      (''Red Blood Cell'', 4.8),
      (''Sex Hormone Binding Globulin'', 45.0),
      (''Testosterone Total'', 450.0),
      (''Triglyceride'', 120.0)]"

text \<open>
  Python's \<^verbatim>\<open>round(x, ndigits)\<close> on the exact value: to the nearest multiple of
  \<open>10 ^ - ndigits\<close>, a tie to the even one.
\<close>

definition round_half_even :: "real \<Rightarrow> int" where
  "round_half_even x =
     (let f = \<lfloor>x\<rfloor>; d = x - of_int f
      in if d < 1 / 2 then f else if 1 / 2 < d then f + 1 else if even f then f else f + 1)"

definition py_round :: "real \<Rightarrow> nat \<Rightarrow> real" where
  "py_round x ndigits = of_int (round_half_even (x * 10 ^ ndigits)) / 10 ^ ndigits"

text \<open>\<^verbatim>\<open>output.item()\<close>: the only element of a tensor of any shape.\<close>

definition item_t :: "tout \<Rightarrow> exn + real" where
  "item_t t = (case t of T0 v \<Rightarrow> Inr v | T1 xs \<Rightarrow> item xs | T2 rows \<Rightarrow> item (concat rows))"

definition Biomarker_create_dummy_model :: "environment \<Rightarrow> torch_module" where
  "Biomarker_create_dummy_model env = stand_in env 1"

definition Biomarker_load_model ::
  "environment \<Rightarrow> torch_module adapter \<Rightarrow> exn + torch_module adapter" where
  "Biomarker_load_model env self =
     try_except
       (bind_r (if \<not> path_exists env then Inr (Biomarker_create_dummy_model env)
                else torch_load env)
          (\<lambda>m. Inr (self\<lparr>model := Some m, is_loaded := True\<rparr>)))
       (\<lambda>e. Inr (self\<lparr>model := Some (Biomarker_create_dummy_model env), is_loaded := True\<rparr>))"

definition get_dummy_prediction :: "string \<Rightarrow> result" where
  "get_dummy_prediction biomarker_name =
     (let predicted_value = (case map_of dummy_values biomarker_name of
                               None \<Rightarrow> 50.0 | Some v \<Rightarrow> v)
      in [(''biomarker_name'', Str biomarker_name),
          (''predicted_value'', Num predicted_value),
          (''unit'', Str (config_get (config_of biomarker_name) unit [])),
          (''normal_range'', Str (config_get (config_of biomarker_name) normal_range ''N/A'')),
          (''confidence'', Num 0.85)])"

definition Biomarker_body ::
  "string \<Rightarrow> environment \<Rightarrow> torch_module adapter \<Rightarrow> tensor \<Rightarrow> exn + result" where
  "Biomarker_body biomarker_name env self input_data =
     bind_r (call_model self input_data) (\<lambda>output.
     bind_r (item_t output) (\<lambda>v.
     let scale_factor = config_get (config_of biomarker_name) scale_factor 1.0;
         predicted_value = v * scale_factor
     in Inr [(''biomarker_name'', Str biomarker_name),
             (''predicted_value'', Num (py_round predicted_value 2)),
             (''unit'', Str (config_get (config_of biomarker_name) unit [])),
             (''normal_range'', Str (config_get (config_of biomarker_name) normal_range ''N/A'')),
             (''confidence'', Num 0.85),
             (''timestamp'', Str (gmtime env))]))"

definition Biomarker_predict ::
  "string \<Rightarrow> environment \<Rightarrow> torch_module adapter \<Rightarrow> tensor
     \<Rightarrow> torch_module adapter \<times> (exn + result)" where
  "Biomarker_predict biomarker_name env =
     guarded_predict (Biomarker_load_model env) (Biomarker_body biomarker_name env)
       (get_dummy_prediction biomarker_name)"


subsection \<open>An environment for examples\<close>

text \<open>No artifact file exists and nothing can be deserialised.\<close>

definition no_artifacts :: environment where
  "no_artifacts =
     \<lparr>path_exists = False, torch_load = Inl OSError, keras_load = Inl OSError,
      stand_in = (\<lambda>k x. Inr (T2 [replicate k 0])),
      keras_stand_in =
        (\<lambda>k. \<lparr>input_channels = Some 3, call = (\<lambda>x. Inr (T2 [replicate k (1 / real k)]))\<rparr>),
      randn = (\<lambda>n k. replicate n (replicate k 0)),
      gmtime = ''2025-01-01 00:00:00''\<rparr>"

text \<open>
  A file system with one file, which has the marker after a preamble of 128 zero bytes,
  and a reader that refuses a byte string, and reads a file exactly when the file can be
  opened and has the marker.
\<close>

definition one_file :: "string \<Rightarrow> exn + byte list" where
  "one_file p = (if p = ''scan.bin'' then Inr (replicate 128 0 @ DICM) else Inl OSError)"

definition marker_reader :: "(string \<Rightarrow> exn + byte list) \<Rightarrow> fp \<Rightarrow> exn + unit" where
  "marker_reader open_rb f =
     (case f of
        Bytes b \<Rightarrow> Inl TypeError
      | Path p \<Rightarrow> bind_r (open_rb p)
          (\<lambda>content. if seek_read 128 4 content = DICM then Inr () else Inl ValueError))"


section \<open>Properties of DicomProcessor\<close>

lemma try_except_Inr [simp]: "try_except (Inr v) h = Inr v"
  by (simp add: try_except_def)

lemma try_except_Inl [simp]: "try_except (Inl e) h = h e"
  by (simp add: try_except_def)

lemma bind_r_Inr [simp]: "bind_r (Inr v) f = f v"
  by (simp add: bind_r_def)

lemma bind_r_Inl [simp]: "bind_r (Inl e) f = Inl e"
  by (simp add: bind_r_def)

lemma raises_simps [simp]: "raises (Inl e) = True" "raises (Inr v) = False"
  by (simp_all add: raises_def)

lemma replicate_num: "replicate (numeral k) x = x # replicate (pred_numeral k) x"
  by (simp only: numeral_eq_Suc replicate_Suc)

subsection \<open>is_dicom_file\<close>

lemma is_dicom_file_never_raises: "\<exists>b. is_dicom_file open_rb dcmread f = Inr b"
  by (cases f; cases "dcmread f")
     (auto simp: is_dicom_file_def bind_r_def try_except_def split: sum.splits)

lemma is_dicom_file_Bytes:
  "is_dicom_file open_rb dcmread (Bytes b) = Inr (take 4 (drop 128 b) = DICM)"
  by (simp add: is_dicom_file_def seek_read_def)

lemma is_dicom_file_Path_readable:
  "open_rb p = Inr content \<Longrightarrow>
   is_dicom_file open_rb dcmread (Path p) = Inr (take 4 (drop 128 content) = DICM)"
  by (simp add: is_dicom_file_def seek_read_def)

lemma is_dicom_file_Path_unreadable:
  "open_rb p = Inl e \<Longrightarrow>
   is_dicom_file open_rb dcmread (Path p) = Inr (\<not> raises (dcmread (Path p)))"
  by (cases "dcmread (Path p)") (simp_all add: is_dicom_file_def)

text \<open>
  Claim C8.  \<^verbatim>\<open>pydicom.dcmread\<close> is called without \<^verbatim>\<open>force=True\<close>, and then refuses
  every stream that has no \<^verbatim>\<open>DICM\<close> at offset 128: this is the hypothesis on the
  library call.  With such a reader, for every byte buffer and every path,
  \<^verbatim>\<open>is_dicom_file\<close> does not raise, answers \<^verbatim>\<open>True\<close> when the marker is at offset 128,
  whatever the name of the file, and for an input without the marker answers \<^verbatim>\<open>True\<close>
  exactly when the header-only parse succeeds.  (The code returns the comparison itself
  for an input that can be read, and calls the reader only when reading the input raises;
  with a reader that refuses unmarked streams the answer is the same.)
\<close>

theorem is_dicom_file_marker_or_parse:
  assumes bytes_rejected: "\<forall>b. seek_read 128 4 b \<noteq> DICM \<longrightarrow> raises (dcmread (Bytes b))"
    and file_rejected:
      "\<forall>p content. open_rb p = Inr content \<and> seek_read 128 4 content \<noteq> DICM
         \<longrightarrow> raises (dcmread (Path p))"
  shows "is_dicom_file open_rb dcmread f
           = Inr (if has_marker open_rb f then True else \<not> raises (dcmread f))"
proof (cases f)
  case (Bytes b)
  then show ?thesis
    using bytes_rejected by (simp add: is_dicom_file_Bytes has_marker_def seek_read_def)
next
  case (Path p)
  show ?thesis
  proof (cases "open_rb p")
    case (Inl e)
    then show ?thesis using Path
      by (simp add: is_dicom_file_Path_unreadable has_marker_def)
  next
    case (Inr content)
    then show ?thesis using Path file_rejected
      by (simp add: is_dicom_file_Path_readable has_marker_def seek_read_def)
  qed
qed

theorem is_dicom_file_marker_or_parse_witness:
  "is_dicom_file one_file (marker_reader one_file) (Bytes (replicate 128 0 @ DICM)) = Inr True
   \<and> is_dicom_file one_file (marker_reader one_file) (Bytes (replicate 132 0)) = Inr False
   \<and> is_dicom_file one_file (marker_reader one_file) (Path ''scan.bin'') = Inr True
   \<and> is_dicom_file one_file (marker_reader one_file) (Path ''absent.dcm'') = Inr False"
proof -
  have h1: "\<forall>b. seek_read 128 4 b \<noteq> DICM \<longrightarrow> raises (marker_reader one_file (Bytes b))"
    by (simp add: marker_reader_def)
  have h2: "\<forall>p content. one_file p = Inr content \<and> seek_read 128 4 content \<noteq> DICM
              \<longrightarrow> raises (marker_reader one_file (Path p))"
    by (simp add: marker_reader_def)
  note t = is_dicom_file_marker_or_parse [of "marker_reader one_file" one_file, OF h1 h2]
  have a: "is_dicom_file one_file (marker_reader one_file) (Bytes (replicate 128 0 @ DICM)) = Inr True"
    unfolding t by (simp add: has_marker_def seek_read_def DICM_def)
  have b: "is_dicom_file one_file (marker_reader one_file) (Bytes (replicate 132 0)) = Inr False"
    unfolding t by (simp add: has_marker_def seek_read_def DICM_def replicate_num marker_reader_def)
  have c: "is_dicom_file one_file (marker_reader one_file) (Path ''scan.bin'') = Inr True"
    unfolding t by (simp add: has_marker_def seek_read_def DICM_def one_file_def)
  have d: "is_dicom_file one_file (marker_reader one_file) (Path ''absent.dcm'') = Inr False"
    unfolding t by (simp add: has_marker_def one_file_def marker_reader_def)
  show ?thesis using a b c d by simp
qed

subsection \<open>hashlib.md5: the test suite of RFC 1321\<close>

lemma le_bytes_num: "le_bytes (numeral k) v = v mod 256 # le_bytes (pred_numeral k) (v div 256)"
  by (simp only: numeral_eq_Suc le_bytes.simps)

lemma md5_blocks_num:
  "md5_blocks (numeral k) p = take 64 p # md5_blocks (pred_numeral k) (drop 64 p)"
  by (simp only: numeral_eq_Suc md5_blocks.simps)

lemma md5_mix_num:
  "md5_mix 0 b c d = (b AND c) OR (not32 b AND d)"
  "md5_mix (Suc 0) b c d = (d AND b) OR (not32 d AND c)"
  "md5_mix 2 b c d = b XOR c XOR d"
  "md5_mix 3 b c d = c XOR (b OR not32 d)"
  by (simp_all add: md5_mix_def)

lemmas md5_eval = md5_hexdigest_def md5_digest_def md5_pad_def md5_block_def md5_init_def
  md5_table_def add32_def not32_def rotl32_def hex_byte_def replicate_num le_bytes_num md5_blocks_num
  md5_mix_num

lemma md5_empty: "md5_hexdigest [] = ''d41d8cd98f00b204e9800998ecf8427e''"
  by (simp add: md5_eval)

lemma md5_abc: "md5_hexdigest ''abc'' = ''900150983cd24fb0d6963f7d28e17f72''"
  by (simp add: md5_eval)

lemma md5_two_blocks:
  "md5_hexdigest ''12345678901234567890123456789012345678901234567890123456789012345678901234567890''
     = ''57edf4a22be3c955ac49da2e2107b67a''"
  by (simp add: md5_eval)

lemma md5_fixed: "md5_hexdigest ''ANON_c92ddc91'' = ''c92ddc91b7adbcae93e8e0a262f77da6''"
  by (simp add: md5_eval)

lemma length_le_bytes: "length (le_bytes k v) = k"
  by (induction k arbitrary: v) simp_all

lemma length_hex: "length (concat (map hex_byte xs)) = 2 * length xs"
  by (induction xs) (simp_all add: hex_byte_def)

lemma length_md5_hexdigest: "length (md5_hexdigest s) = 32"
proof -
  obtain a b c d where
    "foldl md5_block md5_init
       (md5_blocks (length (md5_pad (map of_char s)) div 64) (md5_pad (map of_char s))) = (a, b, c, d)"
    by (metis prod_cases4)
  then have "length (md5_digest (map of_char s)) = 16"
    by (simp add: md5_digest_def length_le_bytes)
  then show ?thesis by (simp add: md5_hexdigest_def length_hex)
qed

subsection \<open>anonymize_metadata\<close>

lemma anonymize_metadata_eq:
  assumes "metadata < length s"
  shows "anonymize_metadata repr s metadata =
     (s @ [anonymize_field repr (s ! metadata)
             (anonymize_field repr (s ! metadata) (s ! metadata) ''patient_name'') ''patient_id''],
      length s)"
  using assms by (simp add: anonymize_metadata_def sensitive_fields_def Let_def nth_append)

lemma anonymized_dict_other:
  assumes "k \<noteq> ''patient_name''" "k \<noteq> ''patient_id''"
  shows "anonymize_field repr m (anonymize_field repr m m ''patient_name'') ''patient_id'' k = m k"
  using assms by (simp add: anonymize_field_def)

lemma anonymized_dict_patient_id:
  assumes "m ''patient_id'' = Some v"
  shows "anonymize_field repr m (anonymize_field repr m m ''patient_name'') ''patient_id'' ''patient_id''
     = Some (PStr (''ANON_'' @ take 8 (md5_hexdigest (py_str repr v))))"
  using assms by (simp add: anonymize_field_def dict_get_def)

lemma anonymized_dict_patient_name:
  assumes "m ''patient_name'' \<noteq> None"
  shows "anonymize_field repr m (anonymize_field repr m m ''patient_name'') ''patient_id'' ''patient_name''
     = Some (PStr ''ANONYMOUS'')"
  using assms by (simp add: anonymize_field_def)

lemma anonymized_dict_dom:
  "(anonymize_field repr m (anonymize_field repr m m ''patient_name'') ''patient_id'' k = None)
     = (m k = None)"
  by (simp add: anonymize_field_def)

text \<open>
  Claim C10.  \<^verbatim>\<open>anonymize_metadata\<close> returns a new dict: its address is fresh, no dict
  that was in the store before the call is changed (the caller's record among them), the
  new dict has the keys of the record and its values at every field other than
  \<^verbatim>\<open>patient_name\<close> and \<^verbatim>\<open>patient_id\<close>, and anonymising the same record again gives
  a dict equal to the first.
\<close>

theorem anonymize_metadata_frame:
  assumes "metadata < length s"
  shows "snd (anonymize_metadata repr s metadata) = length s
    \<and> snd (anonymize_metadata repr s metadata) \<noteq> metadata
    \<and> length (fst (anonymize_metadata repr s metadata)) = Suc (length s)
    \<and> take (length s) (fst (anonymize_metadata repr s metadata)) = s
    \<and> fst (anonymize_metadata repr s metadata) ! metadata = s ! metadata
    \<and> (\<forall>k. k \<noteq> ''patient_name'' \<and> k \<noteq> ''patient_id'' \<longrightarrow>
          (fst (anonymize_metadata repr s metadata) ! length s) k = (s ! metadata) k)
    \<and> (\<forall>k. ((fst (anonymize_metadata repr s metadata) ! length s) k = None)
             = ((s ! metadata) k = None))
    \<and> fst (anonymize_metadata repr (fst (anonymize_metadata repr s metadata)) metadata)
          ! Suc (length s)
        = fst (anonymize_metadata repr s metadata) ! length s"
proof -
  let ?d = "anonymize_field repr (s ! metadata)
             (anonymize_field repr (s ! metadata) (s ! metadata) ''patient_name'') ''patient_id''"
  have e: "anonymize_metadata repr s metadata = (s @ [?d], length s)"
    using assms by (rule anonymize_metadata_eq)
  have m': "metadata < length (s @ [?d])" using assms by simp
  have e2: "anonymize_metadata repr (s @ [?d]) metadata = ((s @ [?d]) @ [?d], Suc (length s))"
    using anonymize_metadata_eq[OF m', of repr] assms by (simp add: nth_append)
  show ?thesis
    unfolding e e2 fst_conv snd_conv
    using assms by (simp add: nth_append anonymized_dict_other anonymized_dict_dom)
qed

theorem anonymize_metadata_frame_witness:
  "(fst (anonymize_metadata (\<lambda>u::unit. [])
        [[''patient_name'' \<mapsto> PStr ''Jane Doe'', ''patient_id'' \<mapsto> PStr ''P1'',
          ''modality'' \<mapsto> PStr ''OCT'']] 0) ! 1) ''modality'' = Some (PStr ''OCT'')
   \<and> fst (anonymize_metadata (\<lambda>u::unit. [])
        [[''patient_name'' \<mapsto> PStr ''Jane Doe'', ''patient_id'' \<mapsto> PStr ''P1'',
          ''modality'' \<mapsto> PStr ''OCT'']] 0) ! 0
       = [''patient_name'' \<mapsto> PStr ''Jane Doe'', ''patient_id'' \<mapsto> PStr ''P1'',
          ''modality'' \<mapsto> PStr ''OCT'']
   \<and> snd (anonymize_metadata (\<lambda>u::unit. [])
        [[''patient_name'' \<mapsto> PStr ''Jane Doe'', ''patient_id'' \<mapsto> PStr ''P1'',
          ''modality'' \<mapsto> PStr ''OCT'']] 0) = 1"
  using anonymize_metadata_frame [of 0
      "[[''patient_name'' \<mapsto> PStr ''Jane Doe'', ''patient_id'' \<mapsto> PStr ''P1'',
          ''modality'' \<mapsto> PStr ''OCT'']]" "\<lambda>u::unit. []"]
  by simp

text \<open>
  Claim C6, as amended.  Where the record has a \<^verbatim>\<open>patient_id\<close>, the anonymised one is
  the string \<^verbatim>\<open>ANON_\<close> followed by the first 8 hexadecimal digits of the MD5 digest of
  the id, a function of the id alone and 13 characters long whatever the id; it differs
  from the id whenever the id is not itself \<^verbatim>\<open>ANON_\<close> followed by 8 characters.  A
  \<^verbatim>\<open>patient_name\<close> that is present becomes \<^verbatim>\<open>ANONYMOUS\<close>.
\<close>

theorem anonymize_patient_id:
  assumes "metadata < length s" and "(s ! metadata) ''patient_id'' = Some v"
  shows "(fst (anonymize_metadata repr s metadata) ! snd (anonymize_metadata repr s metadata))
            ''patient_id''
          = Some (PStr (''ANON_'' @ take 8 (md5_hexdigest (py_str repr v))))
    \<and> length (''ANON_'' @ take 8 (md5_hexdigest (py_str repr v))) = 13
    \<and> ((case v of PStr p \<Rightarrow> length p \<noteq> 13 \<or> take 5 p \<noteq> ''ANON_'' | PObj x \<Rightarrow> True) \<longrightarrow>
         (fst (anonymize_metadata repr s metadata) ! snd (anonymize_metadata repr s metadata))
            ''patient_id'' \<noteq> Some v)
    \<and> ((s ! metadata) ''patient_name'' \<noteq> None \<longrightarrow>
         (fst (anonymize_metadata repr s metadata) ! snd (anonymize_metadata repr s metadata))
            ''patient_name'' = Some (PStr ''ANONYMOUS''))"
proof -
  let ?d = "anonymize_field repr (s ! metadata)
             (anonymize_field repr (s ! metadata) (s ! metadata) ''patient_name'') ''patient_id''"
  have e: "anonymize_metadata repr s metadata = (s @ [?d], length s)"
    using assms(1) by (rule anonymize_metadata_eq)
  have id: "?d ''patient_id'' = Some (PStr (''ANON_'' @ take 8 (md5_hexdigest (py_str repr v))))"
    using assms(2) by (rule anonymized_dict_patient_id)
  have len: "length (''ANON_'' @ take 8 (md5_hexdigest (py_str repr v))) = 13"
    by (simp add: length_md5_hexdigest)
  have differs: "?d ''patient_id'' \<noteq> Some v"
    if "case v of PStr p \<Rightarrow> length p \<noteq> 13 \<or> take 5 p \<noteq> ''ANON_'' | PObj x \<Rightarrow> True"
  proof (cases v)
    case (PStr p)
    with that have "length p \<noteq> 13 \<or> take 5 p \<noteq> ''ANON_''" by simp
    then have "p \<noteq> ''ANON_'' @ take 8 (md5_hexdigest (py_str repr v))"
      using len by auto
    with PStr show ?thesis unfolding id by simp
  next
    case (PObj x)
    then show ?thesis unfolding id by simp
  qed
  have name: "?d ''patient_name'' = Some (PStr ''ANONYMOUS'')" if "(s ! metadata) ''patient_name'' \<noteq> None"
    using that by (rule anonymized_dict_patient_name)
  show ?thesis unfolding e fst_conv snd_conv nth_append_length
    using id len differs name by blast
qed

theorem anonymize_patient_id_witness:
  "(fst (anonymize_metadata (\<lambda>u::unit. [])
        [[''patient_name'' \<mapsto> PStr ''Jane Doe'', ''patient_id'' \<mapsto> PStr ''P1'']] 0) ! 1) ''patient_id''
      = Some (PStr (''ANON_'' @ take 8 (md5_hexdigest ''P1'')))
   \<and> (fst (anonymize_metadata (\<lambda>u::unit. [])
        [[''patient_name'' \<mapsto> PStr ''Jane Doe'', ''patient_id'' \<mapsto> PStr ''P1'']] 0) ! 1) ''patient_id''
      \<noteq> Some (PStr ''P1'')
   \<and> (fst (anonymize_metadata (\<lambda>u::unit. [])
        [[''patient_name'' \<mapsto> PStr ''Jane Doe'', ''patient_id'' \<mapsto> PStr ''P1'']] 0) ! 1) ''patient_name''
      = Some (PStr ''ANONYMOUS'')"
  using anonymize_patient_id [of 0
      "[[''patient_name'' \<mapsto> PStr ''Jane Doe'', ''patient_id'' \<mapsto> PStr ''P1'']]"
      "PStr ''P1''" "\<lambda>u::unit. []"]
    anonymize_metadata_eq [of 0
      "[[''patient_name'' \<mapsto> PStr ''Jane Doe'', ''patient_id'' \<mapsto> PStr ''P1'']]" "\<lambda>u::unit. []"]
  by (simp add: py_str_def)

text \<open>
  The claim as stated fails: the patient id \<^verbatim>\<open>ANON_c92ddc91\<close> is mapped to itself,
  since its MD5 digest starts with \<^verbatim>\<open>c92ddc91\<close>.
\<close>

theorem anonymize_patient_id_fixed_point:
  "(fst (anonymize_metadata (\<lambda>u::unit. []) [[''patient_id'' \<mapsto> PStr ''ANON_c92ddc91'']] 0) ! 1)
      ''patient_id''
   = [''patient_id'' \<mapsto> PStr ''ANON_c92ddc91''] ''patient_id''"
  by (simp add: anonymize_metadata_eq anonymized_dict_patient_id py_str_def md5_fixed)

subsection \<open>_normalize_to_8bit\<close>

lemma floor_rat_numeral: "\<lfloor>(numeral a :: rat) / numeral b\<rfloor> = numeral a div numeral b"
  by (metis floor_divide_of_int_eq of_int_numeral)

lemma ceiling_rat_neg_numeral:
  "\<lceil>- ((numeral a :: rat) / numeral b)\<rceil> = - (numeral a div numeral b)"
  by (simp add: ceiling_def floor_rat_numeral)

lemma normalize_to_8bit_never_raises: "\<exists>r. normalize_to_8bit a = Inr r"
  by (simp add: normalize_to_8bit_def try_except_def bind_r_def np_min_def np_max_def
        split: sum.splits)

text \<open>A constant grid, the empty one included, gives zeros of the same shape.\<close>

lemma normalize_to_8bit_constant:
  assumes "length (elems a) = prod_list (shape a)" and "\<forall>x\<in>set (elems a). x = c"
  shows "normalize_to_8bit a =
     Inr \<lparr>dtype = UInt 8, shape = shape a, elems = replicate (length (elems a)) 0\<rparr>"
proof (cases "elems a = []")
  case True
  then show ?thesis
    by (simp add: normalize_to_8bit_def np_min_def int_astype_uint8_def)
next
  case False
  then have "set (elems a) = {c}" using assms(2) by (cases "elems a") auto
  then have "Min (set (elems a)) = c" "Max (set (elems a)) = c" by simp_all
  with False assms(1) show ?thesis
    by (simp add: normalize_to_8bit_def np_min_def np_max_def zeros_like_uint8_def)
qed

text \<open>
  Where the span \<open>max - min\<close> fits the dtype of the array (always, for an unsigned
  dtype), no subtraction wraps and the result is the linear rescaling.
\<close>

lemma wrap_id: "in_range dt v \<Longrightarrow> wrap dt v = v"
proof (cases dt)
  case (UInt b)
  assume "in_range dt v"
  with UInt show ?thesis by simp
next
  case (SInt b)
  assume "in_range dt v"
  with SInt have b: "0 < b" and lo: "- (2 ^ (b - 1)) \<le> v" and hi: "v < 2 ^ (b - 1)" by simp_all
  from b have p: "(2::int) ^ b = 2 * 2 ^ (b - 1)" by (cases b) simp_all
  have "0 \<le> v + 2 ^ (b - 1)" "v + 2 ^ (b - 1) < 2 ^ b" using lo hi p by linarith+
  then have "(v + 2 ^ (b - 1)) mod 2 ^ b = v + 2 ^ (b - 1)" by simp
  with SInt show ?thesis by simp
qed

lemma in_range_between:
  "in_range dt hi \<Longrightarrow> 0 \<le> v \<Longrightarrow> v \<le> hi \<Longrightarrow> in_range dt v"
  by (cases dt) auto

lemma cast_scaled:
  assumes "0 \<le> p" "p \<le> q" "0 < q"
  shows "float_to_uint8 (of_int p / of_int q * 255) = (p * 255) div q"
proof -
  have e: "(of_int p :: rat) / of_int q * 255 = of_int (p * 255) / of_int q" by simp
  have nn: "0 \<le> (of_int p :: rat) / of_int q * 255" using assms by simp
  have f: "\<lfloor>(of_int p :: rat) / of_int q * 255\<rfloor> = (p * 255) div q"
    unfolding e by (rule floor_divide_of_int_eq)
  have lo: "0 \<le> (p * 255) div q" using assms by (simp add: pos_imp_zdiv_nonneg_iff)
  have "p * 255 \<le> 255 * q" using assms by simp
  then have "(p * 255) div q \<le> (255 * q) div q" by (rule zdiv_mono1) (use assms in simp)
  then have hi: "(p * 255) div q \<le> 255" using assms by simp
  show ?thesis using nn f lo hi by (simp add: float_to_uint8_def trunc_def)
qed


lemma normalize_linear:
  assumes ne: "elems a \<noteq> []"
    and nc: "Min (set (elems a)) \<noteq> Max (set (elems a))"
    and fits: "in_range (dtype a) (Max (set (elems a)) - Min (set (elems a)))"
  shows "normalize_to_8bit a =
     Inr \<lparr>dtype = UInt 8, shape = shape a,
          elems = map (linear_rescale (Min (set (elems a))) (Max (set (elems a)))) (elems a)\<rparr>"
proof -
  define lo where "lo = Min (set (elems a))"
  define hi where "hi = Max (set (elems a))"
  have lohi: "lo \<le> hi" unfolding lo_def hi_def using ne by (simp add: Min_le_iff)
  with nc have pos: "0 < hi - lo" unfolding lo_def hi_def by simp
  have fits': "in_range (dtype a) (hi - lo)" using fits unfolding lo_def hi_def .
  have w: "wrap (dtype a) (hi - lo) = hi - lo" using fits' by (rule wrap_id)
  have each: "float_to_uint8
        (of_int (wrap (dtype a) (x - lo)) / of_int (wrap (dtype a) (hi - lo)) * 255)
      = linear_rescale lo hi x" if "x \<in> set (elems a)" for x
  proof -
    have b1: "0 \<le> x - lo" unfolding lo_def using that by simp
    have b2: "x - lo \<le> hi - lo" unfolding hi_def using that by simp
    have "in_range (dtype a) (x - lo)" using fits' b1 b2 by (rule in_range_between)
    then have "wrap (dtype a) (x - lo) = x - lo" by (rule wrap_id)
    then show ?thesis unfolding w linear_rescale_def using cast_scaled[OF b1 b2 pos] by simp
  qed
  have m: "map float_to_uint8 (scale_to_255 (dtype a) lo hi (elems a))
      = map (linear_rescale lo hi) (elems a)"
    unfolding scale_to_255_def map_map o_def by (rule map_cong[OF refl]) (rule each)
  have mn: "np_min a = Inr lo" and mx: "np_max a = Inr hi"
    using ne by (simp_all add: np_min_def np_max_def lo_def hi_def)
  have "hi \<noteq> lo" using pos by simp
  then have "normalize_to_8bit a = Inr (float_astype_uint8 (shape a) (scale_to_255 (dtype a) lo hi (elems a)))"
    unfolding normalize_to_8bit_def mn mx by simp
  then have "normalize_to_8bit a =
      Inr \<lparr>dtype = UInt 8, shape = shape a, elems = map (linear_rescale lo hi) (elems a)\<rparr>"
    by (simp add: float_astype_uint8_def m)
  then show ?thesis unfolding lo_def hi_def .
qed

lemma normalize_linear_unsigned:
  assumes dt: "dtype a = UInt b" and wf: "well_formed a"
    and ne: "elems a \<noteq> []" and nc: "Min (set (elems a)) \<noteq> Max (set (elems a))"
  shows "normalize_to_8bit a =
     Inr \<lparr>dtype = UInt 8, shape = shape a,
          elems = map (linear_rescale (Min (set (elems a))) (Max (set (elems a)))) (elems a)\<rparr>"
proof -
  have mx: "Max (set (elems a)) \<in> set (elems a)" and mn: "Min (set (elems a)) \<in> set (elems a)"
    using ne by simp_all
  have r: "\<And>x. x \<in> set (elems a) \<Longrightarrow> 0 \<le> x \<and> x < 2 ^ b"
    using wf dt by (auto simp: well_formed_def list_all_iff)
  have "Min (set (elems a)) \<le> Max (set (elems a))" using ne by (simp add: Min_le_iff)
  then have "in_range (dtype a) (Max (set (elems a)) - Min (set (elems a)))"
    using r[OF mx] r[OF mn] dt by simp
  then show ?thesis by (rule normalize_linear[OF ne nc])
qed

text \<open>
  Claim C9.  On a signed 16-bit grid whose span does not fit 16 signed bits the
  subtractions wrap: for the pixels \<open>-20000, 0, 20000\<close> the scaled value of the middle
  pixel is negative, and the result is \<open>0, 57, 255\<close> where the linear rescaling is
  \<open>0, 127, 255\<close>.
\<close>

theorem normalize_to_8bit_int16_wraps:
  "normalize_to_8bit \<lparr>dtype = SInt 16, shape = [3], elems = [-20000, 0, 20000]\<rparr>
     = Inr \<lparr>dtype = UInt 8, shape = [3], elems = [0, 57, 255]\<rparr>
   \<and> scale_to_255 (SInt 16) (-20000) 20000 [-20000, 0, 20000] = [0, - (53125 / 266), 255]
   \<and> map (linear_rescale (-20000) 20000) [-20000, 0, 20000] = [0, 127, 255]"
  by (simp add: normalize_to_8bit_def np_min_def np_max_def float_astype_uint8_def
        float_to_uint8_def trunc_def scale_to_255_def linear_rescale_def
        ceiling_rat_neg_numeral floor_rat_numeral)


section \<open>Properties of the model adapters\<close>

subsection \<open>predict: what leaves the method\<close>

text \<open>
  The five adapters whose \<^verbatim>\<open>predict\<close> is wrapped in \<^verbatim>\<open>try: ... except Exception\<close>
  always return a result; an error inside gives the default of the family.
\<close>

lemma guarded_predict_returns:
  "\<exists>r. snd (guarded_predict load_model body dflt self x) = Inr r"
  by (cases "ensure_loaded load_model self")
     (auto simp: guarded_predict_def try_except_def split: sum.splits)

lemma guarded_predict_default:
  "ensure_loaded load_model self = Inr self' \<Longrightarrow> body self' x = Inl e \<Longrightarrow>
   guarded_predict load_model body dflt self x = (self', Inr dflt)"
  by (simp add: guarded_predict_def)

lemma guarded_predict_success:
  "ensure_loaded load_model self = Inr self' \<Longrightarrow> body self' x = Inr r \<Longrightarrow>
   guarded_predict load_model body dflt self x = (self', Inr r)"
  by (simp add: guarded_predict_def)

lemma DRFundus_predict_never_raises: "\<exists>r. snd (DRFundus_predict env self x) = Inr r"
  unfolding DRFundus_predict_def by (rule guarded_predict_returns)

lemma AMDOCT_predict_never_raises: "\<exists>r. snd (AMDOCT_predict env self x) = Inr r"
  unfolding AMDOCT_predict_def by (rule guarded_predict_returns)

lemma AMDFundus_predict_never_raises: "\<exists>r. snd (AMDFundus_predict env self x) = Inr r"
  unfolding AMDFundus_predict_def by (rule guarded_predict_returns)

lemma Glaucoma_predict_never_raises: "\<exists>r. snd (Glaucoma_predict env self x) = Inr r"
  unfolding Glaucoma_predict_def by (rule guarded_predict_returns)

lemma Biomarker_predict_never_raises: "\<exists>r. snd (Biomarker_predict name env self x) = Inr r"
  unfolding Biomarker_predict_def by (rule guarded_predict_returns)

text \<open>An unexpected output shape inside a guarded \<^verbatim>\<open>predict\<close> gives the default.\<close>

lemma DRFundus_unexpected_shape:
  "snd (DRFundus_predict env \<lparr>model = Some (\<lambda>x. Inr (T1 [0, 0, 0])), is_loaded = True\<rparr> x)
     = Inr DRFundus_default"
  by (simp add: DRFundus_predict_def guarded_predict_def ensure_loaded_def DRFundus_body_def
        call_model_def softmax_dim1_def)

text \<open>
  Claim C1.  \<^verbatim>\<open>DROCTModel.predict\<close> has no \<^verbatim>\<open>try\<close>: with a loaded network whose
  output has three classes, the \<^verbatim>\<open>ValueError\<close> for the unexpected output shape leaves
  the method, where the five other adapters return their default.
\<close>

theorem DROCT_predict_propagates:
  "snd (DROCT_predict env
         \<lparr>model = Some \<lparr>input_channels = Some 3, call = (\<lambda>x. Inr (T2 [[0.2, 0.3, 0.5]]))\<rparr>,
          is_loaded = True\<rparr>
         \<lparr>tshape = [1, 2, 2, 3], tdata = replicate 12 0\<rparr>) = Inl ValueError"
  by (simp add: DROCT_predict_def ensure_loaded_def DROCT_body_def DROCT_align_def ndim_def
        shape_last_def DROCT_probs_def)

subsection \<open>load_model\<close>

text \<open>
  The five other adapters never raise from \<^verbatim>\<open>load_model\<close>: the adapter is marked loaded
  and holds a network, the stand-in when the artifact is missing or cannot be read.
\<close>

lemma load_model_never_raises:
  "case DRFundus_load_model env self of Inl e \<Rightarrow> False | Inr s' \<Rightarrow> is_loaded s' \<and> model s' \<noteq> None"
  "case AMDOCT_load_model env self of Inl e \<Rightarrow> False | Inr s' \<Rightarrow> is_loaded s' \<and> model s' \<noteq> None"
  "case AMDFundus_load_model env self of Inl e \<Rightarrow> False | Inr s' \<Rightarrow> is_loaded s' \<and> model s' \<noteq> None"
  "case Biomarker_load_model env self of Inl e \<Rightarrow> False | Inr s' \<Rightarrow> is_loaded s' \<and> model s' \<noteq> None"
  "case Glaucoma_load_model env kself of Inl e \<Rightarrow> False | Inr s' \<Rightarrow> is_loaded s' \<and> model s' \<noteq> None"
  by (cases "torch_load env"; cases "keras_load env";
      simp add: DRFundus_load_model_def AMDOCT_load_model_def AMDFundus_load_model_def
        Biomarker_load_model_def Glaucoma_load_model_def)+

lemma load_failure_substitutes_dummy:
  "torch_load env = Inl e \<Longrightarrow> DRFundus_load_model env self
      = Inr (self\<lparr>model := Some (DRFundus_create_dummy_model env), is_loaded := True\<rparr>)"
  "torch_load env = Inl e \<Longrightarrow> AMDOCT_load_model env self
      = Inr (self\<lparr>model := Some (AMDOCT_create_dummy_model env), is_loaded := True\<rparr>)"
  "\<not> path_exists env \<or> torch_load env = Inl e \<Longrightarrow> AMDFundus_load_model env self
      = Inr (self\<lparr>model := Some (AMDFundus_create_dummy_model env), is_loaded := True\<rparr>)"
  "\<not> path_exists env \<or> torch_load env = Inl e \<Longrightarrow> Biomarker_load_model env self
      = Inr (self\<lparr>model := Some (Biomarker_create_dummy_model env), is_loaded := True\<rparr>)"
  "\<not> path_exists env \<or> keras_load env = Inl e \<Longrightarrow> Glaucoma_load_model env kself
      = Inr (kself\<lparr>model := Some (Glaucoma_create_dummy_tf_model env), is_loaded := True\<rparr>)"
  by (auto simp: DRFundus_load_model_def AMDOCT_load_model_def AMDFundus_load_model_def
        Biomarker_load_model_def Glaucoma_load_model_def)

lemma DRFundus_dummy_accepts:
  "tshape x = n # rest \<Longrightarrow> DRFundus_create_dummy_model env x = Inr (T2 (randn env n 3))"
  by (simp add: DRFundus_create_dummy_model_def)

text \<open>
  Claim C2.  \<^verbatim>\<open>DROCTModel.load_model\<close> calls \<^verbatim>\<open>self._create_dummy_model()\<close> in its
  handler, a method the class does not have: when the artifact cannot be read, the
  \<^verbatim>\<open>AttributeError\<close> leaves \<^verbatim>\<open>load_model\<close>, the adapter stays unloaded, and a
  \<^verbatim>\<open>predict\<close> that follows raises the same way.
\<close>

theorem DROCT_load_model_raises:
  "DROCT_load_model (env\<lparr>keras_load := Inl e\<rparr>) self = Inl AttributeError
   \<and> DROCT_predict (env\<lparr>keras_load := Inl e\<rparr>) unloaded x = (unloaded, Inl AttributeError)"
  by (simp add: DROCT_load_model_def DROCT_create_dummy_model_def DROCT_predict_def
        ensure_loaded_def unloaded_def)

subsection \<open>AMDFundusModel: one logit\<close>


lemma item_single: "item xs = Inr v \<longleftrightarrow> xs = [v]"
  by (auto simp: item_def split: list.splits)



lemma AMDFundus_default_shape:
  "AMDFundus_default =
     [(''prediction'', Str (if (0.08::real) > 1 / 2 then ''AMD Present'' else ''No AMD'')),
      (''confidence'', Num (if (0.08::real) > 1 / 2 then 0.08 else 1 - 0.08)),
      (''probability'', Num 0.08)]"
  by (simp add: AMDFundus_default_def)


subsection \<open>DROCTModel: one output\<close>





subsection \<open>BiomarkerModel\<close>

lemma round_half_even_near: "\<bar>of_int (round_half_even y) - y\<bar> \<le> 1 / 2"
proof -
  have "of_int \<lfloor>y\<rfloor> \<le> y" "y < of_int \<lfloor>y\<rfloor> + 1" by linarith+
  then show ?thesis by (auto simp: round_half_even_def Let_def)
qed

lemma py_round_2_decimals: "\<exists>k::int. py_round x 2 = of_int k / 100"
  by (auto simp: py_round_def)

lemma py_round_2_near: "\<bar>py_round x 2 - x\<bar> \<le> 1 / 200"
proof -
  have "\<bar>of_int (round_half_even (x * 100)) - x * 100\<bar> \<le> 1 / 2" by (rule round_half_even_near)
  then have "\<bar>of_int (round_half_even (x * 100)) / 100 - x\<bar> \<le> 1 / 200" by (simp add: abs_if field_simps split: if_splits)
  then show ?thesis by (simp add: py_round_def)
qed

lemma BIOMARKER_CONFIG_scale_factor:
  "map_of BIOMARKER_CONFIG name = Some cfg \<Longrightarrow> scale_factor cfg = 1"
  by (auto simp: BIOMARKER_CONFIG_def split: if_splits)

lemma BIOMARKER_CONFIG_distinct: "distinct (map fst BIOMARKER_CONFIG)"
  by (simp add: BIOMARKER_CONFIG_def)

lemma length_BIOMARKER_CONFIG: "length BIOMARKER_CONFIG = 18"
  by (simp add: BIOMARKER_CONFIG_def)

text \<open>
  Claim C4.  For a biomarker name of the configuration table, when the network returns a
  tensor with one element \<open>v\<close>, \<^verbatim>\<open>predict\<close> returns \<open>v\<close> times the scale factor of the
  name, rounded to two decimals (a multiple of 0.01 at most 0.005 away), with the unit
  and the reference range of the name in the table.
\<close>

theorem Biomarker_predict_value:
  assumes loaded: "ensure_loaded (Biomarker_load_model env) self = Inr self'"
    and out: "call_model self' x = Inr out" "item_t out = Inr v"
    and cfg: "map_of BIOMARKER_CONFIG name = Some cfg"
  shows "snd (Biomarker_predict name env self x)
           = Inr [(''biomarker_name'', Str name),
                  (''predicted_value'', Num (py_round (v * scale_factor cfg) 2)),
                  (''unit'', Str (unit cfg)),
                  (''normal_range'', Str (normal_range cfg)),
                  (''confidence'', Num 0.85),
                  (''timestamp'', Str (gmtime env))]
       \<and> (\<exists>k::int. py_round (v * scale_factor cfg) 2 = of_int k / 100)
       \<and> \<bar>py_round (v * scale_factor cfg) 2 - v * scale_factor cfg\<bar> \<le> 1 / 200"
proof -
  have "Biomarker_body name env self' x
      = Inr [(''biomarker_name'', Str name),
             (''predicted_value'', Num (py_round (v * scale_factor cfg) 2)),
             (''unit'', Str (unit cfg)),
             (''normal_range'', Str (normal_range cfg)),
             (''confidence'', Num 0.85),
             (''timestamp'', Str (gmtime env))]"
    using out cfg by (simp add: Biomarker_body_def config_of_def config_get_def)
  then have "snd (Biomarker_predict name env self x) = \<dots>"
    using loaded by (simp add: Biomarker_predict_def guarded_predict_def)
  then show ?thesis using py_round_2_decimals py_round_2_near by blast
qed

theorem Biomarker_predict_value_witness:
  "snd (Biomarker_predict ''Glucose'' no_artifacts
          \<lparr>model = Some (\<lambda>x. Inr (T2 [[5.437]])), is_loaded = True\<rparr>
          \<lparr>tshape = [1, 3, 1, 1], tdata = [0, 0, 0]\<rparr>)
     = Inr [(''biomarker_name'', Str ''Glucose''),
            (''predicted_value'', Num 5.44),
            (''unit'', Str ''mmol/L''),
            (''normal_range'', Str ''3.9-5.6''),
            (''confidence'', Num 0.85),
            (''timestamp'', Str ''2025-01-01 00:00:00'')]"
proof -
  let ?self = "\<lparr>model = Some (\<lambda>x::tensor. Inr (T2 [[5.437]]) :: exn + tout), is_loaded = True\<rparr>"
  let ?cfg = "\<lparr>unit = ''mmol/L'',
          normal_range = ''3.9-5.6'', scale_factor = 1.0\<rparr>"
  have h1: "ensure_loaded (Biomarker_load_model no_artifacts) ?self = Inr ?self"
    by (simp add: ensure_loaded_def)
  have h2: "call_model ?self \<lparr>tshape = [1, 3, 1, 1], tdata = [0, 0, 0]\<rparr> = Inr (T2 [[5.437]])"
    by (simp add: call_model_def)
  have h3: "item_t (T2 [[5.437]]) = Inr 5.437"
    by (simp add: item_t_def item_def)
  have h4: "map_of BIOMARKER_CONFIG ''Glucose'' = Some ?cfg"
    by (simp add: BIOMARKER_CONFIG_def)
  have v: "py_round (5.437 * scale_factor ?cfg) 2 = 5.44"
    by (simp add: py_round_def round_half_even_def Let_def)
  have g: "gmtime no_artifacts = ''2025-01-01 00:00:00''"
    by (simp add: no_artifacts_def)
  show ?thesis
    unfolding Biomarker_predict_value [OF h1 h2 h3 h4, THEN conjunct1] v g by simp
qed

subsection \<open>DRFundusModel: the margin\<close>





lemma length_softmax [simp]: "length (softmax zs) = length zs"
  by (simp add: softmax_def)

lemma sum_exp_pos: "zs \<noteq> [] \<Longrightarrow> 0 < sum_list (map exp zs :: real list)"
proof (cases zs)
  case Nil
  assume "zs \<noteq> []"
  with Nil show ?thesis by simp
next
  case (Cons z rest)
  have "0 \<le> sum_list (map exp rest :: real list)" by (rule sum_list_nonneg) auto
  moreover have "0 < exp z" by simp
  ultimately show ?thesis unfolding Cons by (simp add: add_pos_nonneg)
qed


lemma sum_list_divide: "(\<Sum>x\<leftarrow>zs. f x / c) = (\<Sum>x\<leftarrow>zs. f x) / (c::real)"
  by (induction zs) (simp_all add: add_divide_distrib)

lemma sum_list_softmax: "zs \<noteq> [] \<Longrightarrow> sum_list (softmax zs) = 1"
proof -
  assume "zs \<noteq> []"
  then have "0 < sum_list (map exp zs)" by (rule sum_exp_pos)
  then show ?thesis by (simp add: softmax_def sum_list_divide)
qed

lemma length_sort_descending [simp]: "length (sort_descending xs) = length xs"
  by (simp add: sort_descending_def)

lemma sort_descending_Nil_iff [simp]: "sort_descending xs = [] \<longleftrightarrow> xs = []"
  by (metis length_0_conv length_sort_descending)







subsection \<open>Channel reconciliation\<close>

lemma concat_replicate_nth:
  assumes "i < length xs" "j < k"
  shows "concat (map (replicate k) xs) ! (k * i + j) = xs ! i"
  using assms
proof (induction xs arbitrary: i)
  case Nil
  then show ?case by simp
next
  case (Cons a xs)
  show ?case
  proof (cases i)
    case 0
    with Cons.prems show ?thesis by (simp add: nth_append)
  next
    case (Suc i')
    with Cons.prems have "i' < length xs" by simp
    then have "concat (map (replicate k) xs) ! (k * i' + j) = xs ! i'"
      using Cons.prems(2) by (rule Cons.IH)
    moreover have "k * i + j - k = k * i' + j" using Suc by simp
    moreover have "\<not> k * i + j < k" using Suc by simp
    ultimately show ?thesis using Suc by (simp add: nth_append)
  qed
qed

lemma np_repeat_last_nth:
  "i < length (tdata x) \<Longrightarrow> j < k \<Longrightarrow> tdata (np_repeat_last k x) ! (k * i + j) = tdata x ! i"
  by (simp add: np_repeat_last_def concat_replicate_nth)

lemma np_repeat_last_shape:
  "tshape x \<noteq> [] \<Longrightarrow> last (tshape x) = 1 \<Longrightarrow>
   tshape (np_repeat_last 3 x) = butlast (tshape x) @ [3]"
  by (simp add: np_repeat_last_def)

lemma take3_drop:
  assumes "n + 2 < length xs"
  shows "take 3 (drop n xs) = [xs ! n, xs ! (n + 1), xs ! (n + 2)]"
proof (rule nth_equalityI)
  show "length (take 3 (drop n xs)) = length [xs ! n, xs ! (n + 1), xs ! (n + 2)]"
    using assms by simp
next
  fix i assume "i < length (take 3 (drop n xs))"
  then have "i < 3" by simp
  then consider "i = 0" | "i = 1" | "i = 2" by arith
  then show "take 3 (drop n xs) ! i = [xs ! n, xs ! (n + 1), xs ! (n + 2)] ! i"
    using assms by cases (simp_all add: numeral_2_eq_2)
qed

lemma mean_last_keepdims_nth:
  assumes "last (tshape x) = 3" "i < length (tdata x) div 3"
  shows "tdata (mean_last_keepdims x) ! i
     = (tdata x ! (3 * i) + tdata x ! (3 * i + 1) + tdata x ! (3 * i + 2)) / 3"
proof -
  have len: "i * 3 + 2 < length (tdata x)" using assms(2) by simp
  have "mean (take 3 (drop (i * 3) (tdata x)))
      = (tdata x ! (i * 3) + tdata x ! (i * 3 + 1) + tdata x ! (i * 3 + 2)) / 3"
    unfolding take3_drop[OF len] by (simp add: mean_def)
  then show ?thesis using assms by (simp add: mean_last_keepdims_def Let_def mult.commute)
qed

lemma batched_np_repeat_last:
  "tshape x \<noteq> [] \<Longrightarrow>
   (if ndim (np_repeat_last k x) = 3 then expand_dims0 (np_repeat_last k x) else np_repeat_last k x)
     = np_repeat_last k (if ndim x = 3 then expand_dims0 x else x)"
  by (simp add: ndim_def np_repeat_last_def expand_dims0_def)

lemma batched_mean_last_keepdims:
  "tshape x \<noteq> [] \<Longrightarrow>
   (if ndim (mean_last_keepdims x) = 3 then expand_dims0 (mean_last_keepdims x)
    else mean_last_keepdims x)
     = mean_last_keepdims (if ndim x = 3 then expand_dims0 x else x)"
  by (simp add: ndim_def mean_last_keepdims_def expand_dims0_def Let_def)

lemma DROCT_align_no_error: "tshape x \<noteq> [] \<Longrightarrow> \<exists>y. DROCT_align m x = Inr y"
  by (simp add: DROCT_align_def Let_def shape_last_def expand_dims0_def)

lemma DROCT_align_repeat:
  assumes "tshape x \<noteq> []" "last (tshape x) = 1" "input_channels m = Some 3"
  shows "DROCT_align m x = Inr (np_repeat_last 3 (if ndim x = 3 then expand_dims0 x else x))"
    and "DROCT_align m (np_repeat_last 3 x) = DROCT_align m x"
  using assms
  by (simp_all add: DROCT_align_def Let_def shape_last_def expand_dims0_def np_repeat_last_def ndim_def)

lemma DROCT_align_mean:
  assumes "tshape x \<noteq> []" "last (tshape x) = 3" "input_channels m = Some 1"
  shows "DROCT_align m x = Inr (mean_last_keepdims (if ndim x = 3 then expand_dims0 x else x))"
    and "DROCT_align m (mean_last_keepdims x) = DROCT_align m x"
  using assms
  by (simp_all add: DROCT_align_def Let_def shape_last_def expand_dims0_def mean_last_keepdims_def ndim_def)

lemma DROCT_body_cong_align:
  "DROCT_align m x = DROCT_align m x' \<Longrightarrow> model self = Some m \<Longrightarrow>
   DROCT_body self x = DROCT_body self x'"
  by (simp add: DROCT_body_def)

text \<open>
  Claim C7, as amended.  The DR OCT adapter reconciles the channel count and raises no
  error for it: when its network declares 3 input channels and the batch has 1, the
  network is given the batch with every value repeated three times along the last axis,
  and \<^verbatim>\<open>predict\<close> answers as on that batch; when the network declares 1 channel and the
  batch has 3, the network is given the mean of the three channels.
\<close>

theorem DROCT_channel_reconciliation:
  assumes loaded: "is_loaded self" "model self = Some m"
    and rank: "tshape x \<noteq> []"
  shows "(\<exists>y. DROCT_align m x = Inr y)
    \<and> (last (tshape x) = 1 \<and> input_channels m = Some 3 \<longrightarrow>
          DROCT_align m x = Inr (np_repeat_last 3 (if ndim x = 3 then expand_dims0 x else x))
        \<and> DROCT_predict env self x = DROCT_predict env self (np_repeat_last 3 x))
    \<and> (last (tshape x) = 3 \<and> input_channels m = Some 1 \<longrightarrow>
          DROCT_align m x = Inr (mean_last_keepdims (if ndim x = 3 then expand_dims0 x else x))
        \<and> DROCT_predict env self x = DROCT_predict env self (mean_last_keepdims x))
    \<and> (\<forall>i<length (tdata x). \<forall>j<3. tdata (np_repeat_last 3 x) ! (3 * i + j) = tdata x ! i)
    \<and> (last (tshape x) = 3 \<longrightarrow>
          (\<forall>i<length (tdata x) div 3.
             tdata (mean_last_keepdims x) ! i
               = (tdata x ! (3 * i) + tdata x ! (3 * i + 1) + tdata x ! (3 * i + 2)) / 3))"
proof -
  have p: "DROCT_predict env self x' = (self, DROCT_body self x')" for x'
    using loaded(1) by (simp add: DROCT_predict_def ensure_loaded_def)
  have a: "\<exists>y. DROCT_align m x = Inr y" using rank by (rule DROCT_align_no_error)
  have r: "DROCT_align m x = Inr (np_repeat_last 3 (if ndim x = 3 then expand_dims0 x else x))
        \<and> DROCT_predict env self x = DROCT_predict env self (np_repeat_last 3 x)"
    if "last (tshape x) = 1" "input_channels m = Some 3"
    unfolding p using DROCT_align_repeat[OF rank that]
      DROCT_body_cong_align[OF _ loaded(2), of x "np_repeat_last 3 x"] by simp
  have mn: "DROCT_align m x = Inr (mean_last_keepdims (if ndim x = 3 then expand_dims0 x else x))
        \<and> DROCT_predict env self x = DROCT_predict env self (mean_last_keepdims x)"
    if "last (tshape x) = 3" "input_channels m = Some 1"
    unfolding p using DROCT_align_mean[OF rank that]
      DROCT_body_cong_align[OF _ loaded(2), of x "mean_last_keepdims x"] by simp
  show ?thesis
    using a r mn np_repeat_last_nth[of _ x _ 3] mean_last_keepdims_nth[of x] by blast
qed

theorem DROCT_channel_reconciliation_witness:
  "snd (DROCT_predict no_artifacts
          \<lparr>model = Some \<lparr>input_channels = Some 3,
                          call = (\<lambda>x. if last (tshape x) = 3 then Inr (T2 [[hd (tdata x)]])
                                       else Inl ValueError)\<rparr>,
           is_loaded = True\<rparr>
          \<lparr>tshape = [2, 2, 1], tdata = [0.75, 0.5, 0.5, 0.5]\<rparr>)
     = Inr [(''prediction'', Str ''Normal''), (''confidence'', Num 0.75),
            (''probabilities'', NumDict [(''DR'', 0.25), (''Normal'', 0.75)]),
            (''classes'', StrList DROCT_classes)]
   \<and> snd (DROCT_predict no_artifacts
          \<lparr>model = Some \<lparr>input_channels = Some 1,
                          call = (\<lambda>x. if last (tshape x) = 1 then Inr (T2 [[hd (tdata x)]])
                                       else Inl ValueError)\<rparr>,
           is_loaded = True\<rparr>
          \<lparr>tshape = [1, 1, 1, 3], tdata = [0.3, 0.6, 0.9]\<rparr>)
     = Inr [(''prediction'', Str ''Normal''), (''confidence'', Num 0.6),
            (''probabilities'', NumDict [(''DR'', 0.4), (''Normal'', 0.6)]),
            (''classes'', StrList DROCT_classes)]"
proof -
  let ?m = "\<lparr>input_channels = Some 3,
             call = (\<lambda>x. if last (tshape x) = 3 then Inr (T2 [[hd (tdata x)]])
                          else Inl ValueError)\<rparr>"
  let ?self = "\<lparr>model = Some ?m, is_loaded = True\<rparr>"
  let ?x = "\<lparr>tshape = [2, 2, 1], tdata = [0.75, 0.5, 0.5, 0.5]\<rparr>"
  let ?m1 = "\<lparr>input_channels = Some 1,
             call = (\<lambda>x. if last (tshape x) = 1 then Inr (T2 [[hd (tdata x)]])
                          else Inl ValueError)\<rparr>"
  let ?self1 = "\<lparr>model = Some ?m1, is_loaded = True\<rparr>"
  let ?x1 = "\<lparr>tshape = [1, 1, 1, 3], tdata = [0.3, 0.6, 0.9]\<rparr>"
  have "DROCT_predict no_artifacts ?self ?x = DROCT_predict no_artifacts ?self (np_repeat_last 3 ?x)"
    using DROCT_channel_reconciliation [of ?self ?m ?x no_artifacts] by simp
  then have a: "snd (DROCT_predict no_artifacts ?self ?x)
     = Inr [(''prediction'', Str ''Normal''), (''confidence'', Num 0.75),
            (''probabilities'', NumDict [(''DR'', 0.25), (''Normal'', 0.75)]),
            (''classes'', StrList DROCT_classes)]"
    by (simp add: DROCT_predict_def ensure_loaded_def DROCT_body_def DROCT_align_def ndim_def
          shape_last_def np_repeat_last_def expand_dims0_def DROCT_probs_def argmax_def
          getitem_def DROCT_classes_def)
  have "DROCT_predict no_artifacts ?self1 ?x1
      = DROCT_predict no_artifacts ?self1 (mean_last_keepdims ?x1)"
    using DROCT_channel_reconciliation [of ?self1 ?m1 ?x1 no_artifacts] by simp
  then have b: "snd (DROCT_predict no_artifacts ?self1 ?x1)
     = Inr [(''prediction'', Str ''Normal''), (''confidence'', Num 0.6),
            (''probabilities'', NumDict [(''DR'', 0.4), (''Normal'', 0.6)]),
            (''classes'', StrList DROCT_classes)]"
    by (simp add: DROCT_predict_def ensure_loaded_def DROCT_body_def DROCT_align_def ndim_def
          shape_last_def mean_last_keepdims_def mean_def expand_dims0_def DROCT_probs_def
          argmax_def getitem_def DROCT_classes_def Let_def)
  show ?thesis using a b by (rule conjI)
qed

text \<open>
  The glaucoma adapter does not reconcile: it refuses every batch whose last axis is not
  3 and returns its default result.
\<close>

lemma Glaucoma_refuses_other_channels:
  assumes "last (tshape x) \<noteq> 3"
  shows "snd (Glaucoma_predict env self x) = Inr Glaucoma_default"
proof -
  have "last (tshape (if ndim x = 3 then expand_dims0 x else x)) \<noteq> 3"
    using assms by (auto simp: expand_dims0_def ndim_def)
  then have b: "Glaucoma_body s x = Inl ValueError" for s
    by (simp add: Glaucoma_body_def Let_def)
  show ?thesis
    by (cases "ensure_loaded (Glaucoma_load_model env) self")
       (simp_all add: Glaucoma_predict_def guarded_predict_def b)
qed

text \<open>
  The claim as stated fails for the other adapters.  The glaucoma adapter, with a network
  that expects 3 channels, refuses a 1-channel batch (the \<^verbatim>\<open>ValueError\<close> of its shape
  check is caught) and returns its default, not what it returns on the replicated batch.
\<close>

theorem Glaucoma_rejects_single_channel:
  "snd (Glaucoma_predict no_artifacts
          \<lparr>model = Some \<lparr>input_channels = Some 3,
                          call = (\<lambda>x. if last (tshape x) = 3 then Inr (T2 [[0.9, 0.1]])
                                       else Inl ValueError)\<rparr>,
           is_loaded = True\<rparr>
          \<lparr>tshape = [1, 2, 2, 1], tdata = [0, 0, 0, 0]\<rparr>)
     = Inr Glaucoma_default
   \<and> snd (Glaucoma_predict no_artifacts
          \<lparr>model = Some \<lparr>input_channels = Some 3,
                          call = (\<lambda>x. if last (tshape x) = 3 then Inr (T2 [[0.9, 0.1]])
                                       else Inl ValueError)\<rparr>,
           is_loaded = True\<rparr>
          (np_repeat_last 3 \<lparr>tshape = [1, 2, 2, 1], tdata = [0, 0, 0, 0]\<rparr>))
     = Inr [(''prediction'', Str ''Glaucoma Suspected''), (''confidence'', Num 0.9),
            (''class_probabilities'',
               NumDict [(''Glaucoma Suspected'', 0.9), (''No Glaucoma'', 0.1)])]"
  by (simp add: Glaucoma_predict_def guarded_predict_def ensure_loaded_def Glaucoma_body_def
        ndim_def np_repeat_last_def call_keras_def first_row_def getitem_def isclose_def
        argmax_def Glaucoma_classes_def)

end
